theory Spec2Isabelle
  imports Main "HOL-Library.Word" "HOL-Library.Sublist"
begin

unbundle bit_operations_syntax

section \<open>The EPUB encryption gateway: \<open>pkg/api/encrypt_handler.go\<close>\<close>

text \<open>
  The handler \<open>EncryptEPUB\<close> is a straight line of calls into the Go standard library,
  the UUID package and the external encryption engine, each followed by an early return
  on error. The embedding threads an explicit \<open>world\<close> (file system, response writer,
  log, the calls made to collaborators, the stack of deferred calls) through the same
  steps, in the same order. Whatever the handler cannot decide itself (I/O failures,
  the random draws, what the engine answers) is read from an \<open>env\<close>.
\<close>

subsection \<open>Bytes, paths and the file system\<close>

type_synonym byte = "8 word"
type_synonym bytes = "byte list"

text \<open>A Go \<open>error\<close> is kept as the text its \<open>Error()\<close> method returns.\<close>

type_synonym error = string

text \<open>A path is the list of its components below the root; Go strings are byte strings.\<close>

type_synonym path = "string list"

datatype node = Dir | File bytes

type_synonym filesystem = "path \<Rightarrow> node option"

text \<open>\<open>strings.Split(s, "/")\<close>: the pieces between slashes, empty pieces included.\<close>

fun split_slash :: "string \<Rightarrow> string list" where
  "split_slash [] = [[]]"
| "split_slash (c # cs) =
     (if c = CHR ''/'' then [] # split_slash cs
      else (case split_slash cs of
              [] \<Rightarrow> [[c]]
            | p # ps \<Rightarrow> (c # p) # ps))"

text \<open>
  \<open>filepath.Clean\<close> on a rooted path, one component at a time: empty components and
  \<open>.\<close> vanish, \<open>..\<close> drops the last component (and stays at the root).
\<close>

fun clean_onto :: "path \<Rightarrow> string list \<Rightarrow> path" where
  "clean_onto p [] = p"
| "clean_onto p (c # cs) =
     (if c = [] \<or> c = ''.'' then clean_onto p cs
      else if c = ''..'' then clean_onto (butlast p) cs
      else clean_onto (p @ [c]) cs)"

text \<open>\<open>filepath.Join(dir, elem)\<close> for a directory that is already clean.\<close>

definition filepath_Join :: "path \<Rightarrow> string \<Rightarrow> path" where
  "filepath_Join dir elem = clean_onto dir (split_slash elem)"

text \<open>
  \<open>filepath.Base(path)\<close>: the last element of the path, trailing slashes dropped;
  \<open>.\<close> for the empty path and \<open>/\<close> for a path of slashes only.
\<close>

definition filepath_Base :: "string \<Rightarrow> string" where
  "filepath_Base p =
     (if p = [] then ''.''
      else
        (let stripped = rev (dropWhile (\<lambda>c. c = CHR ''/'') (rev p));
             b = rev (takeWhile (\<lambda>c. c \<noteq> CHR ''/'') (rev stripped))
         in if b = [] then ''/'' else b))"

text \<open>\<open>os.RemoveAll(path)\<close>: the path and everything below it are gone afterwards.\<close>

definition os_RemoveAll :: "path \<Rightarrow> filesystem \<Rightarrow> filesystem" where
  "os_RemoveAll root fs = (\<lambda>p. if prefix root p then None else fs p)"

text \<open>
  \<open>os.Create(name)\<close>: needs the parent to be a directory and the name not to be one;
  truncates an existing file. \<open>io_err\<close> is a failure of the operating system beyond
  these checks (permissions, quota).
\<close>

definition parent_is_dir :: "filesystem \<Rightarrow> path \<Rightarrow> bool" where
  "parent_is_dir fs p = (p \<noteq> [] \<and> (butlast p = [] \<or> fs (butlast p) = Some Dir))"

definition os_Create :: "error option \<Rightarrow> path \<Rightarrow> filesystem \<Rightarrow> error + filesystem" where
  "os_Create io_err p fs =
     (case io_err of
        Some e \<Rightarrow> Inl e
      | None \<Rightarrow>
          if \<not> parent_is_dir fs p then Inl ''no such file or directory''
          else if fs p = Some Dir then Inl ''is a directory''
          else Inr (fs(p \<mapsto> File [])))"

text \<open>
  \<open>os.MkdirAll(path, perm)\<close>: creates the directory and the missing parents; fails
  when a component of the path is a file.
\<close>

fun is_file :: "node option \<Rightarrow> bool" where
  "is_file (Some (File b)) = True"
| "is_file (Some Dir) = False"
| "is_file None = False"

definition os_MkdirAll :: "error option \<Rightarrow> path \<Rightarrow> filesystem \<Rightarrow> error + filesystem" where
  "os_MkdirAll io_err p fs =
     (case io_err of
        Some e \<Rightarrow> Inl e
      | None \<Rightarrow>
          if list_ex (\<lambda>q. is_file (fs q)) (prefixes p) then Inl ''not a directory''
          else Inr (\<lambda>q. if q \<noteq> [] \<and> prefix q p \<and> fs q = None then Some Dir else fs q))"


text \<open>A number in decimal, as \<open>strconv\<close> and the \<open>%d\<close> verb print it.\<close>

fun show_nat :: "nat \<Rightarrow> string" where
  "show_nat n =
     (if n < 10 then [''0123456789'' ! n]
      else show_nat (n div 10) @ [''0123456789'' ! (n mod 10)])"

declare show_nat.simps [simp del]

text \<open>
  \<open>os.MkdirTemp("", "lcp-encrypt-*")\<close>: a new directory in \<open>os.TempDir()\<close> whose name is
  the pattern with the last star replaced by a random decimal number. \<open>draw\<close> is the
  operating system's failure or the number drawn; a name already taken counts as a failure.
\<close>

definition prefixAndSuffix :: "string \<Rightarrow> string \<times> string" where
  "prefixAndSuffix pat =
     (if CHR ''*'' \<in> set pat
      then (rev (tl (dropWhile (\<lambda>c. c \<noteq> CHR ''*'') (rev pat))),
            rev (takeWhile (\<lambda>c. c \<noteq> CHR ''*'') (rev pat)))
      else (pat, []))"

definition os_MkdirTemp ::
  "error + 32 word \<Rightarrow> path \<Rightarrow> string \<Rightarrow> filesystem \<Rightarrow> error + (path \<times> filesystem)" where
  "os_MkdirTemp draw tmp pat fs =
     (case draw of
        Inl e \<Rightarrow> Inl e
      | Inr rnd \<Rightarrow>
          (let name = tmp @ [fst (prefixAndSuffix pat) @ show_nat (unat rnd) @ snd (prefixAndSuffix pat)] in
           if \<not> parent_is_dir fs name then Inl ''no such file or directory''
           else if fs name \<noteq> None then Inl ''file exists''
           else Inr (name, fs(name \<mapsto> Dir))))"

text \<open>
  \<open>os.Open(name)\<close>: the name must exist; a directory can be opened as well. The open
  file is the name together with the node the descriptor refers to.
\<close>

definition os_Open :: "error option \<Rightarrow> path \<Rightarrow> filesystem \<Rightarrow> error + (path \<times> node)" where
  "os_Open io_err p fs =
     (case io_err of
        Some e \<Rightarrow> Inl e
      | None \<Rightarrow>
          (case fs p of
             None \<Rightarrow> Inl ''no such file or directory''
           | Some nd \<Rightarrow> Inr (p, nd)))"

text \<open>
  \<open>io.Copy(out, src)\<close> into a file just created: all of the source, or the first
  \<open>n\<close> bytes when the write fails there.
\<close>

definition io_Copy_file ::
  "(nat \<times> error) option \<Rightarrow> bytes \<Rightarrow> path \<Rightarrow> filesystem \<Rightarrow> error option \<times> filesystem" where
  "io_Copy_file fails content dst fs =
     (case fails of
        None \<Rightarrow> (None, fs(dst \<mapsto> File content))
      | Some (n, e) \<Rightarrow> (Some e, fs(dst \<mapsto> File (take n content))))"

subsection \<open>Encodings: hexadecimal, UUID text, base64, JSON\<close>

definition hextable :: string where
  "hextable = ''0123456789abcdef''"

text \<open>\<open>hex.Encode\<close>: two lower-case digits per byte, high nibble first.\<close>

definition hex_Encode :: "bytes \<Rightarrow> string" where
  "hex_Encode bs =
     concat (map (\<lambda>b. [hextable ! unat (drop_bit 4 b), hextable ! unat (b AND 0x0F)]) bs)"

text \<open>
  \<open>uuid.New()\<close> reads 16 random bytes and stamps version 4 and the RFC 4122 variant on
  bytes 6 and 8; \<open>String()\<close> prints the groups 4-2-2-2-6 in hexadecimal.
\<close>

definition bytes_of_word128 :: "128 word \<Rightarrow> bytes" where
  "bytes_of_word128 x =
     map (\<lambda>sh. ucast (drop_bit sh x))
       [120, 112, 104, 96, 88, 80, 72, 64, 56, 48, 40, 32, 24, 16, 8, 0]"

definition uuid_New :: "128 word \<Rightarrow> bytes" where
  "uuid_New rnd =
     (let u = bytes_of_word128 rnd;
          u = u[6 := (u ! 6 AND 0x0F) OR 0x40];
          u = u[8 := (u ! 8 AND 0x3F) OR 0x80]
      in u)"

definition uuid_String :: "bytes \<Rightarrow> string" where
  "uuid_String u =
     hex_Encode (take 4 u) @ ''-'' @ hex_Encode (take 2 (drop 4 u)) @ ''-'' @
     hex_Encode (take 2 (drop 6 u)) @ ''-'' @ hex_Encode (take 2 (drop 8 u)) @ ''-'' @
     hex_Encode (drop 10 u)"

text \<open>\<open>base64.StdEncoding.EncodeToString\<close>: three bytes make four characters, padded with \<open>=\<close>.\<close>

definition encodeStd :: string where
  "encodeStd = ''ABCDEFGHIJKLMNOPQRSTUVWXYZabcdefghijklmnopqrstuvwxyz0123456789+/''"

definition sextet :: "32 word \<Rightarrow> nat \<Rightarrow> char" where
  "sextet val sh = encodeStd ! unat (drop_bit sh val AND 0x3F)"

fun EncodeToString :: "bytes \<Rightarrow> string" where
  "EncodeToString (a # b # c # rest) =
     (let val = push_bit 16 (ucast a) OR push_bit 8 (ucast b) OR ucast c
      in [sextet val 18, sextet val 12, sextet val 6, sextet val 0] @ EncodeToString rest)"
| "EncodeToString [a, b] =
     (let val = push_bit 16 (ucast a) OR push_bit 8 (ucast b)
      in [sextet val 18, sextet val 12, sextet val 6, CHR ''=''])"
| "EncodeToString [a] =
     (let val = push_bit 16 (ucast a)
      in [sextet val 18, sextet val 12, CHR ''='', CHR ''=''])"
| "EncodeToString [] = []"

text \<open>
  \<open>encoding/json\<close> (as of Go 1.22) writes a string between double quotes. With HTML escaping on (the
  default of \<open>json.Marshal\<close>) the bytes below \<open>0x20\<close>, the quote, the backslash and
  \<open><\<close>, \<open>>\<close>, \<open>&\<close> are escaped; a byte that starts no valid UTF-8 sequence becomes
  the escape of U+FFFD; U+2028 and U+2029 are escaped; every other sequence is copied.
\<close>

definition escape_ascii :: "char \<Rightarrow> string" where
  "escape_ascii c =
     (if c = CHR 0x5C \<or> c = CHR 0x22 then [CHR 0x5C, c]
      else if c = CHR 0x08 then [CHR 0x5C, CHR ''b'']
      else if c = CHR 0x0C then [CHR 0x5C, CHR ''f'']
      else if c = CHR 0x0A then [CHR 0x5C, CHR ''n'']
      else if c = CHR 0x0D then [CHR 0x5C, CHR ''r'']
      else if c = CHR 0x09 then [CHR 0x5C, CHR ''t'']
      else if (of_char c :: nat) < 0x20 \<or> c = CHR ''<'' \<or> c = CHR ''>'' \<or> c = CHR ''&''
      then [CHR 0x5C, CHR ''u'', CHR ''0'', CHR ''0'',
            hextable ! ((of_char c :: nat) div 16), hextable ! ((of_char c :: nat) mod 16)]
      else [c])"

definition is_cont :: "nat \<Rightarrow> bool" where
  "is_cont b = (0x80 \<le> b \<and> b \<le> 0xBF)"

text \<open>
  The length of the UTF-8 sequence at the head of the bytes, 0 when there is none
  (\<open>utf8.DecodeRuneInString\<close> answering \<open>RuneError\<close> with size 1).
\<close>

fun utf8_size :: "nat list \<Rightarrow> nat" where
  "utf8_size [] = 0"
| "utf8_size (b0 # rest) =
     (if 0xC2 \<le> b0 \<and> b0 \<le> 0xDF then
        (case rest of b1 # _ \<Rightarrow> if is_cont b1 then 2 else 0 | _ \<Rightarrow> 0)
      else if 0xE0 \<le> b0 \<and> b0 \<le> 0xEF then
        (case rest of
           b1 # b2 # _ \<Rightarrow>
             if (if b0 = 0xE0 then 0xA0 else 0x80) \<le> b1 \<and>
                b1 \<le> (if b0 = 0xED then 0x9F else 0xBF) \<and> is_cont b2
             then 3 else 0
         | _ \<Rightarrow> 0)
      else if 0xF0 \<le> b0 \<and> b0 \<le> 0xF4 then
        (case rest of
           b1 # b2 # b3 # _ \<Rightarrow>
             if (if b0 = 0xF0 then 0x90 else 0x80) \<le> b1 \<and>
                b1 \<le> (if b0 = 0xF4 then 0x8F else 0xBF) \<and> is_cont b2 \<and> is_cont b3
             then 4 else 0
         | _ \<Rightarrow> 0)
      else 0)"

function json_escape :: "string \<Rightarrow> string" where
  "json_escape [] = []"
| "json_escape (c # cs) =
     (if (of_char c :: nat) < 0x80 then escape_ascii c @ json_escape cs
      else
        (let n = utf8_size (map of_char (take 4 (c # cs))) in
         if n = 0 then (CHR 0x5C # ''ufffd'') @ json_escape cs
         else if take 3 (c # cs) = [CHR 0xE2, CHR 0x80, CHR 0xA8] then (CHR 0x5C # ''u2028'') @ json_escape (drop 2 cs)
         else if take 3 (c # cs) = [CHR 0xE2, CHR 0x80, CHR 0xA9] then (CHR 0x5C # ''u2029'') @ json_escape (drop 2 cs)
         else take n (c # cs) @ json_escape (drop (n - 1) cs)))"
  by pat_completeness auto
termination
  by (relation "measure length") auto

definition json_string :: "string \<Rightarrow> string" where
  "json_string s = [CHR 0x22] @ json_escape s @ [CHR 0x22]"

text \<open>
  The Go values \<open>json.Marshal\<close> can be handed here. Strings, unsigned integers and
  booleans are encodable, a struct is when its fields are; channels and functions are
  not, and make \<open>Marshal\<close> return an \<open>UnsupportedTypeError\<close>.
\<close>

datatype go_value =
    GoString string
  | GoUint32 "32 word"
  | GoBool bool
  | GoChan
  | GoFunc
  | GoStruct "(string \<times> go_value) list"

fun json_Marshal :: "go_value \<Rightarrow> error + string"
  and marshal_fields :: "(string \<times> go_value) list \<Rightarrow> error + string" where
  "json_Marshal (GoString s) = Inr (json_string s)"
| "json_Marshal (GoUint32 n) = Inr (show_nat (unat n))"
| "json_Marshal (GoBool b) = Inr (if b then ''true'' else ''false'')"
| "json_Marshal GoChan = Inl ''json: unsupported type: chan''"
| "json_Marshal GoFunc = Inl ''json: unsupported type: func''"
| "json_Marshal (GoStruct fs) =
     (case marshal_fields fs of Inl e \<Rightarrow> Inl e | Inr body \<Rightarrow> Inr (''{'' @ body @ ''}''))"
| "marshal_fields [] = Inr []"
| "marshal_fields ((k, v) # rest) =
     (case json_Marshal v of
        Inl e \<Rightarrow> Inl e
      | Inr enc \<Rightarrow>
          (case marshal_fields rest of
             Inl e \<Rightarrow> Inl e
           | Inr more \<Rightarrow>
               Inr (json_string k @ '':'' @ enc @ (if rest = [] then [] else '','' @ more))))"

subsection \<open>The request: \<open>net/http\<close> and \<open>mime/multipart\<close>\<close>

text \<open>
  A multipart body is its parts, in order: a part without a file name is a value, a
  part with one is a file, here with the name as the client sent it. A file part whose
  file name is empty is a value to the library, whatever it carries. \<open>malformed\<close>
  holds the parser's error when the request is no valid \<open>multipart/form-data\<close>.
\<close>

datatype part =
    Value_part string string
  | File_part string string bytes

record request =
  malformed :: "error option"
  parts :: "part list"
  query :: "(string \<times> string) list"

definition string_of_bytes :: "bytes \<Rightarrow> string" where
  "string_of_bytes b = map (\<lambda>x. char_of (unat x)) b"

text \<open>
  \<open>multipart.Reader.ReadForm\<close> (as of Go 1.22) keeps two budgets: \<open>maxFileMemoryBytes\<close>
  for the content of files held in memory, and \<open>maxMemoryBytes\<close>, 10 MB more, for all
  that is held in memory. Every part is charged its name and 200 bytes, a value its
  bytes, a file 900 bytes for its header and entry and, when it fits the first budget,
  its bytes on both. A file that does not fit is written to a temporary file instead,
  which is no reason to fail unless the write fails (\<open>spill\<close>). No part is read
  after 1000 parts, a part without a name is skipped, and a named part cannot be read
  once less than 600 bytes of the second budget are left. The header lines of a part
  are not held here and count as empty, so the library charges at least what is
  charged here.
\<close>

fun readForm :: "error option \<Rightarrow> int \<Rightarrow> int \<Rightarrow> nat \<Rightarrow> part list \<Rightarrow> error option" where
  "readForm spill maxFileMemoryBytes maxMemoryBytes maxParts [] = None"
| "readForm spill maxFileMemoryBytes maxMemoryBytes maxParts (Value_part name v # ps) =
     (if maxParts = 0 then Some ''multipart: message too large''
      else if name = [] then readForm spill maxFileMemoryBytes maxMemoryBytes (maxParts - 1) ps
      else if maxMemoryBytes < 600 then Some ''multipart: message too large''
      else if maxMemoryBytes - int (length name) - 200 - int (length v) < 0
      then Some ''multipart: message too large''
      else readForm spill maxFileMemoryBytes
             (maxMemoryBytes - int (length name) - 200 - int (length v)) (maxParts - 1) ps)"
| "readForm spill maxFileMemoryBytes maxMemoryBytes maxParts (File_part name filename content # ps) =
     (if maxParts = 0 then Some ''multipart: message too large''
      else if name = [] then readForm spill maxFileMemoryBytes maxMemoryBytes (maxParts - 1) ps
      else if maxMemoryBytes < 600 then Some ''multipart: message too large''
      else if filename = [] then
        (if maxMemoryBytes - int (length name) - 200 - int (length content) < 0
         then Some ''multipart: message too large''
         else readForm spill maxFileMemoryBytes
                (maxMemoryBytes - int (length name) - 200 - int (length content)) (maxParts - 1) ps)
      else if maxMemoryBytes - int (length name) - 200 - 900 < 0
      then Some ''multipart: message too large''
      else if maxFileMemoryBytes < int (length content) then
        (case spill of
           Some e \<Rightarrow> Some e
         | None \<Rightarrow>
             readForm spill maxFileMemoryBytes
               (maxMemoryBytes - int (length name) - 200 - 900) (maxParts - 1) ps)
      else readForm spill (maxFileMemoryBytes - int (length content))
             (maxMemoryBytes - int (length name) - 200 - 900 - int (length content))
             (maxParts - 1) ps)"

text \<open>
  \<open>Request.ParseMultipartForm(maxMemory)\<close>: the whole body is parsed, whatever its
  size; \<open>maxMemory\<close> bounds what of it is held in memory.
\<close>

definition ParseMultipartForm :: "error option \<Rightarrow> request \<Rightarrow> nat \<Rightarrow> error option" where
  "ParseMultipartForm spill r maxMemory =
     (case malformed r of
        Some e \<Rightarrow> Some e
      | None \<Rightarrow> readForm spill (int maxMemory) (int maxMemory + 10 * 2 ^ 20) 1000 (parts r))"

text \<open>The files and the values of a field, in the order of the parts.\<close>

fun file_parts :: "string \<Rightarrow> part list \<Rightarrow> (string \<times> bytes) list" where
  "file_parts key [] = []"
| "file_parts key (Value_part name v # ps) = file_parts key ps"
| "file_parts key (File_part name filename content # ps) =
     (if name = key \<and> filename \<noteq> [] then (filename, content) # file_parts key ps
      else file_parts key ps)"

fun value_parts :: "string \<Rightarrow> part list \<Rightarrow> string list" where
  "value_parts key [] = []"
| "value_parts key (Value_part name v # ps) =
     (if name = key then v # value_parts key ps else value_parts key ps)"
| "value_parts key (File_part name filename content # ps) =
     (if name = key \<and> filename = [] then string_of_bytes content # value_parts key ps
      else value_parts key ps)"

text \<open>
  \<open>Request.FormFile(key)\<close>: the first file of that field, opened; \<open>ErrMissingFile\<close> when
  the form has none. The result is the file (its bytes) and \<open>header.Filename\<close>, which
  \<open>Part.FileName\<close> sets to the base of the name sent (RFC 7578, section 4.2).
\<close>

definition FormFile :: "error option \<Rightarrow> request \<Rightarrow> string \<Rightarrow> error + (bytes \<times> string)" where
  "FormFile open_err r key =
     (case file_parts key (parts r) of
        [] \<Rightarrow> Inl ''http: no such file''
      | (filename, content) # _ \<Rightarrow>
          (case open_err of
             Some e \<Rightarrow> Inl e
           | None \<Rightarrow> Inr (content, filepath_Base filename)))"

text \<open>
  \<open>Request.FormValue(key)\<close>: the first value of \<open>r.Form[key]\<close>, where the parameters of
  the URL query come before the fields of a multipart body; empty when there is none.
\<close>

definition FormValue :: "request \<Rightarrow> string \<Rightarrow> string" where
  "FormValue r key =
     (case map snd (filter (\<lambda>kv. fst kv = key) (query r)) @ value_parts key (parts r) of
        [] \<Rightarrow> []
      | v # _ \<Rightarrow> v)"

subsection \<open>The response writer and the log\<close>

text \<open>
  What leaves through the \<open>http.ResponseWriter\<close>, in order: the status line with the
  header map as it stood at \<open>WriteHeader\<close>, then the chunks of the body.
\<close>

type_synonym header = "string \<Rightarrow> string list option"

datatype wire = Head nat header | Chunk bytes

record response =
  hdr :: header
  wroteHeader :: bool
  sent :: "wire list"

definition Header_Set :: "string \<Rightarrow> string \<Rightarrow> response \<Rightarrow> response" where
  "Header_Set k v rw = rw\<lparr>hdr := (hdr rw)(k \<mapsto> [v])\<rparr>"

definition Header_Del :: "string \<Rightarrow> response \<Rightarrow> response" where
  "Header_Del k rw = rw\<lparr>hdr := (hdr rw)(k := None)\<rparr>"

text \<open>\<open>WriteHeader\<close> counts once; a second call is ignored by the server.\<close>

definition WriteHeader :: "nat \<Rightarrow> response \<Rightarrow> response" where
  "WriteHeader code rw =
     (if wroteHeader rw then rw
      else rw\<lparr>wroteHeader := True, sent := sent rw @ [Head code (hdr rw)]\<rparr>)"

text \<open>\<open>Write\<close> sends the header with status 200 first when none was sent yet.\<close>

definition Write :: "bytes \<Rightarrow> response \<Rightarrow> response" where
  "Write b rw = (let rw' = WriteHeader 200 rw in rw'\<lparr>sent := sent rw' @ [Chunk b]\<rparr>)"

definition bytes_of_string :: "string \<Rightarrow> bytes" where
  "bytes_of_string s = map of_char s"

text \<open>\<open>http.Error(w, msg, code)\<close>: a plain-text reply, the message and a newline.\<close>

definition http_Error :: "string \<Rightarrow> nat \<Rightarrow> response \<Rightarrow> response" where
  "http_Error msg code rw =
     Write (bytes_of_string (msg @ [CHR 0x0A]))
       (WriteHeader code
         (Header_Set ''X-Content-Type-Options'' ''nosniff''
           (Header_Set ''Content-Type'' ''text/plain; charset=utf-8''
             (Header_Del ''Content-Length'' rw))))"

text \<open>The status sent, and the body sent after it.\<close>

fun status_of :: "wire list \<Rightarrow> nat option" where
  "status_of [] = None"
| "status_of (Head code h # ws) = Some code"
| "status_of (Chunk b # ws) = status_of ws"

fun headers_of :: "wire list \<Rightarrow> header" where
  "headers_of [] = Map.empty"
| "headers_of (Head code h # ws) = h"
| "headers_of (Chunk b # ws) = headers_of ws"

fun body_of :: "wire list \<Rightarrow> bytes" where
  "body_of [] = []"
| "body_of (Head code h # ws) = body_of ws"
| "body_of (Chunk b # ws) = b @ body_of ws"

datatype level = Info | Error

type_synonym logline = "level \<times> string"

subsection \<open>The engine's descriptor and the metadata record\<close>

text \<open>The fields of the engine's publication descriptor that the handler reads.\<close>

record Publication =
  UUID :: string
  Title :: string
  EncryptionKey :: bytes
  Size :: "32 word"
  Checksum :: string
  ContentType :: string
  FileName :: string

text \<open>
  Modelled from the spec: the engine, \<open>encrypt.ProcessEncryption\<close>, is not among the
  sources. Of the descriptor it returns the spec's data model says that the size is the
  byte length of the encrypted artifact, and that the file name is the name under which
  the artifact was written to the output directory. \<open>size_describes\<close> is the first
  half, for the bytes of that file.
\<close>

definition size_describes :: "Publication \<Rightarrow> bytes \<Rightarrow> bool" where
  "size_describes pub artifact = (unat (Size pub) = length artifact)"

text \<open>The ten parameters of \<open>encrypt.ProcessEncryption\<close>, in its order.\<close>

record engine_args =
  contentID :: string
  contentKey :: string
  inputPath :: path
  tempRepo :: string
  outputRepo :: path
  storageRepo :: string
  storageURL :: string
  storageFilename :: string
  extractCover :: bool
  pdfNoMeta :: bool

record EncryptResponse =
  md_UUID :: string
  md_EncryptionKey :: string
  md_Size :: "32 word"
  md_Checksum :: string
  md_ContentType :: string
  md_Title :: string
  md_FileName :: string

text \<open>The struct as \<open>json.Marshal\<close> sees it: the fields under their \<open>json\<close> tags.\<close>

definition EncryptResponse_value :: "EncryptResponse \<Rightarrow> go_value" where
  "EncryptResponse_value m =
     GoStruct
       [(''uuid'', GoString (md_UUID m)),
        (''encryption_key'', GoString (md_EncryptionKey m)),
        (''size'', GoUint32 (md_Size m)),
        (''checksum'', GoString (md_Checksum m)),
        (''content_type'', GoString (md_ContentType m)),
        (''title'', GoString (md_Title m)),
        (''file_name'', GoString (md_FileName m))]"

subsection \<open>The world of one request\<close>

text \<open>
  The calls the handler makes to the operating system, the random source and the
  engine, each with what it returned.
\<close>

datatype call =
    MkdirTemp string "error + path"
  | Create path "error option"
  | Copy_in path "error option"
  | New_uuid "error + bytes"
  | MkdirAll path "error option"
  | ProcessEncryption engine_args "error + Publication"
  | Open path "error + node"
  | Copy_out "error option"
  | RemoveAll path
  | Close_upload
  | Close path

text \<open>The calls that only release something.\<close>

fun cleanup :: "call \<Rightarrow> bool" where
  "cleanup (RemoveAll p) = True"
| "cleanup Close_upload = True"
| "cleanup (Close p) = True"
| "cleanup c = False"

text \<open>The calls of the engine.\<close>

fun is_engine_call :: "call \<Rightarrow> bool" where
  "is_engine_call (ProcessEncryption a res) = True"
| "is_engine_call c = False"

datatype deferred = Defer_Close_upload | Defer_RemoveAll path | Defer_Close path

record world =
  fs :: filesystem
  resp :: response
  logs :: "logline list"
  calls :: "call list"
  deferred :: "deferred list"
  panic :: "error option"

text \<open>
  What the handler does not decide: the outcome of every call that can fail, the random
  draws, and the engine, which answers with an error or a descriptor and may write to
  the file system either way.
\<close>

record env =
  TempDir :: path
  spill_err :: "error option"
  upload_open_err :: "error option"
  mkdirtemp_draw :: "error + 32 word"
  create_err :: "error option"
  save_copy_err :: "(nat \<times> error) option"
  rand_read :: "error + 128 word"
  mkdirall_err :: "error option"
  engine :: "engine_args \<Rightarrow> filesystem \<Rightarrow> (error + Publication) \<times> filesystem"
  open_err :: "error option"
  stream_err :: "(nat \<times> error) option"

definition log_Info :: "string \<Rightarrow> world \<Rightarrow> world" where
  "log_Info msg w = w\<lparr>logs := logs w @ [(Info, msg)]\<rparr>"

definition log_Error :: "string \<Rightarrow> world \<Rightarrow> world" where
  "log_Error msg w = w\<lparr>logs := logs w @ [(Error, msg)]\<rparr>"

definition reply_Error :: "string \<Rightarrow> nat \<Rightarrow> world \<Rightarrow> world" where
  "reply_Error msg code w = w\<lparr>resp := http_Error msg code (resp w)\<rparr>"

definition called :: "call \<Rightarrow> world \<Rightarrow> world" where
  "called c w = w\<lparr>calls := calls w @ [c]\<rparr>"

text \<open>\<open>defer\<close> pushes a call; at return the pushed calls run, the last one first.\<close>

definition go_defer :: "deferred \<Rightarrow> world \<Rightarrow> world" where
  "go_defer d w = w\<lparr>deferred := d # deferred w\<rparr>"

fun run_one :: "deferred \<Rightarrow> world \<Rightarrow> world" where
  "run_one Defer_Close_upload w = called Close_upload w"
| "run_one (Defer_RemoveAll p) w = called (RemoveAll p) (w\<lparr>fs := os_RemoveAll p (fs w)\<rparr>)"
| "run_one (Defer_Close p) w = called (Close p) w"

fun run_all :: "deferred list \<Rightarrow> world \<Rightarrow> world" where
  "run_all [] w = w"
| "run_all (d # ds) w = run_all ds (run_one d w)"

definition run_deferred :: "world \<Rightarrow> world" where
  "run_deferred w = run_all (deferred w) (w\<lparr>deferred := []\<rparr>)"

text \<open>
  \<open>io.Copy(w, encryptedFile)\<close>: the bytes of the open file go out as the body; the
  copy stops after \<open>n\<close> bytes when the peer is gone, and reading a directory fails at once.
\<close>

definition io_Copy_response ::
  "(nat \<times> error) option \<Rightarrow> path \<times> node \<Rightarrow> response \<Rightarrow> error option \<times> response" where
  "io_Copy_response fails f rw =
     (case snd f of
        Dir \<Rightarrow> (Some ''read: is a directory'', rw)
      | File content \<Rightarrow>
          (case fails of
             None \<Rightarrow> (None, Write content rw)
           | Some (n, e) \<Rightarrow> (Some e, Write (take n content) rw)))"

subsection \<open>The handler\<close>

text \<open>
  \<open>saveMultipartFile(src, dst)\<close>; \<open>None\<close> is the nil reader. Its own deferred
  \<open>out.Close()\<close> runs once the file was created.
\<close>

definition saveMultipartFile :: "env \<Rightarrow> bytes option \<Rightarrow> path \<Rightarrow> world \<Rightarrow> error option \<times> world" where
  "saveMultipartFile env src dst w =
     (case src of
        None \<Rightarrow> (Some ''source is nil'', w)
      | Some content \<Rightarrow>
          (case os_Create (create_err env) dst (fs w) of
             Inl err \<Rightarrow> (Some err, called (Create dst (Some err)) w)
           | Inr fs1 \<Rightarrow>
               (case io_Copy_file (save_copy_err env) content dst fs1 of
                  (err, fs2) \<Rightarrow>
                    (err, called (Close dst) (called (Copy_in dst err)
                            (called (Create dst None) (w\<lparr>fs := fs2\<rparr>)))))))"

text \<open>
  Steps 9 (second half) and 10: given what \<open>json.Marshal\<close> returned, either the reply
  of the serialization failure, or the three headers, the status 200 and the body.
\<close>

definition respond ::
  "env \<Rightarrow> Publication \<Rightarrow> string \<Rightarrow> path \<times> node \<Rightarrow> error + string \<Rightarrow> world \<Rightarrow> world" where
  "respond env publication pubTitle encryptedFile marshalled w =
     (case marshalled of
        Inl err \<Rightarrow>
          reply_Error ''internal server error'' 500
            (log_Error (''EncryptEPUB: failed to marshal metadata: '' @ err) w)
      | Inr metadataJSON \<Rightarrow>
          (let w1 = w\<lparr>resp :=
                 WriteHeader 200
                   (Header_Set ''Content-Disposition''
                      (''attachment; filename=\"'' @ FileName publication @ ''\"'')
                      (Header_Set ''Content-Type'' (ContentType publication)
                         (Header_Set ''X-Encrypt-Metadata'' metadataJSON (resp w))))\<rparr>
           in case io_Copy_response (stream_err env) encryptedFile (resp w1) of
                (Some err, rw2) \<Rightarrow>
                  log_Error (''EncryptEPUB: failed to stream encrypted file: '' @ err)
                    (called (Copy_out (Some err)) (w1\<lparr>resp := rw2\<rparr>))
              | (None, rw2) \<Rightarrow>
                  log_Info
                    (''EncryptEPUB: success, uuid='' @ UUID publication @ '', title='' @ pubTitle @
                     '', size='' @ show_nat (unat (Size publication)))
                    (called (Copy_out None) (w1\<lparr>resp := rw2\<rparr>))))"

text \<open>Step 9, first half: the metadata record built from the descriptor.\<close>

definition metadata_of :: "Publication \<Rightarrow> string \<Rightarrow> EncryptResponse" where
  "metadata_of publication pubTitle =
     \<lparr>md_UUID = UUID publication,
      md_EncryptionKey = EncodeToString (EncryptionKey publication),
      md_Size = Size publication,
      md_Checksum = Checksum publication,
      md_ContentType = ContentType publication,
      md_Title = pubTitle,
      md_FileName = FileName publication\<rparr>"

text \<open>The arguments of the call in step 7.\<close>

definition engine_call :: "string \<Rightarrow> path \<Rightarrow> path \<Rightarrow> engine_args" where
  "engine_call cid inp outDir =
     \<lparr>contentID = cid, contentKey = [], inputPath = inp, tempRepo = [], outputRepo = outDir,
      storageRepo = [], storageURL = [], storageFilename = [],
      extractCover = False, pdfNoMeta = False\<rparr>"

text \<open>
  The body of \<open>EncryptEPUB\<close>, step by step as numbered in the source; every early
  \<open>return\<close> is a branch that ends here. \<open>uuid.New()\<close> panics when the random source
  fails, which ends the body as well. The deferred calls are still pending in the result.
\<close>

definition EncryptEPUB_body :: "env \<Rightarrow> request \<Rightarrow> world \<Rightarrow> world" where
  "EncryptEPUB_body env r w0 =
     (let w = log_Info ''EncryptEPUB: request received'' w0 in
      case ParseMultipartForm (spill_err env) r (50 * 2 ^ 20) of
        Some err \<Rightarrow>
          reply_Error ''failed to parse multipart form'' 400
            (log_Error (''EncryptEPUB: failed to parse multipart form: '' @ err) w)
      | None \<Rightarrow>
      (case FormFile (upload_open_err env) r ''file'' of
        Inl err \<Rightarrow>
          reply_Error ''missing 'file' field'' 400
            (log_Error (''EncryptEPUB: missing file field: '' @ err) w)
      | Inr (file, header_Filename) \<Rightarrow>
      (let w = go_defer Defer_Close_upload w;
           title = FormValue r ''title''
       in case os_MkdirTemp (mkdirtemp_draw env) (TempDir env) ''lcp-encrypt-*'' (fs w) of
        Inl err \<Rightarrow>
          reply_Error ''internal server error'' 500
            (log_Error (''EncryptEPUB: failed to create temp dir: '' @ err)
              (called (MkdirTemp ''lcp-encrypt-*'' (Inl err)) w))
      | Inr (tempDir, fs1) \<Rightarrow>
      (let w = go_defer (Defer_RemoveAll tempDir)
                 (called (MkdirTemp ''lcp-encrypt-*'' (Inr tempDir)) (w\<lparr>fs := fs1\<rparr>));
           inputPath = filepath_Join tempDir header_Filename
       in case saveMultipartFile env (Some file) inputPath w of
        (Some err, w) \<Rightarrow>
          reply_Error ''internal server error'' 500
            (log_Error (''EncryptEPUB: failed to save uploaded file: '' @ err) w)
      | (None, w) \<Rightarrow>
      (case rand_read env of
        Inl err \<Rightarrow> (called (New_uuid (Inl err)) w)\<lparr>panic := Some err\<rparr>
      | Inr rnd \<Rightarrow>
      (let w = called (New_uuid (Inr (uuid_New rnd))) w;
           contentID = uuid_String (uuid_New rnd);
           outputDir = filepath_Join tempDir ''output''
       in case os_MkdirAll (mkdirall_err env) outputDir (fs w) of
        Inl err \<Rightarrow>
          reply_Error ''internal server error'' 500
            (log_Error (''EncryptEPUB: failed to create output dir: '' @ err)
              (called (MkdirAll outputDir (Some err)) w))
      | Inr fs2 \<Rightarrow>
      (let w = called (MkdirAll outputDir None) (w\<lparr>fs := fs2\<rparr>);
           args = engine_call contentID inputPath outputDir
       in case engine env args (fs w) of
        (Inl err, fs3) \<Rightarrow>
          reply_Error (''encryption failed: '' @ err) 500
            (log_Error (''EncryptEPUB: encryption failed: '' @ err)
              (called (ProcessEncryption args (Inl err)) (w\<lparr>fs := fs3\<rparr>)))
      | (Inr publication, fs3) \<Rightarrow>
      (let w = called (ProcessEncryption args (Inr publication)) (w\<lparr>fs := fs3\<rparr>);
           pubTitle = (if title \<noteq> [] then title else Title publication);
           encryptedPath = filepath_Join outputDir (FileName publication)
       in case os_Open (open_err env) encryptedPath (fs w) of
        Inl err \<Rightarrow>
          reply_Error ''internal server error'' 500
            (log_Error (''EncryptEPUB: failed to open encrypted file: '' @ err)
              (called (Open encryptedPath (Inl err)) w))
      | Inr encryptedFile \<Rightarrow>
          respond env publication pubTitle encryptedFile
            (json_Marshal (EncryptResponse_value (metadata_of publication pubTitle)))
            (go_defer (Defer_Close encryptedPath)
              (called (Open encryptedPath (Inr (snd encryptedFile))) w))))))))))"

text \<open>The handler: its body, then the deferred calls.\<close>

definition EncryptEPUB :: "env \<Rightarrow> request \<Rightarrow> world \<Rightarrow> world" where
  "EncryptEPUB env r w = run_deferred (EncryptEPUB_body env r w)"

text \<open>The world a request arrives in: nothing written, logged, called or deferred yet.\<close>

definition arriving :: "filesystem \<Rightarrow> world" where
  "arriving fs0 =
     \<lparr>fs = fs0,
      resp = \<lparr>hdr = Map.empty, wroteHeader = False, sent = []\<rparr>,
      logs = [], calls = [], deferred = [], panic = None\<rparr>"

subsection \<open>A sample request\<close>

text \<open>
  One temporary directory \<open>/tmp\<close>, an engine that writes three bytes to
  \<open>out.epub\<close> in the output directory and describes them, and an upload of a two-byte
  file with a title.
\<close>

definition sample_fs :: filesystem where
  "sample_fs = [[''tmp''] \<mapsto> Dir]"

definition sample_engine ::
  "engine_args \<Rightarrow> filesystem \<Rightarrow> (error + Publication) \<times> filesystem" where
  "sample_engine a f =
     (Inr \<lparr>UUID = contentID a, Title = ''Moby Dick'', EncryptionKey = [1, 2, 3, 4], Size = 3,
           Checksum = ''c0ffee'', ContentType = ''application/epub+zip'',
           FileName = ''out.epub''\<rparr>,
      f(outputRepo a @ [''out.epub''] \<mapsto> File [7, 8, 9]))"

definition sample_env :: env where
  "sample_env =
     \<lparr>TempDir = [''tmp''], spill_err = None, upload_open_err = None, mkdirtemp_draw = Inr 7,
      create_err = None, save_copy_err = None,
      rand_read = Inr 0x0123456789abcdef0123456789abcdef, mkdirall_err = None,
      engine = sample_engine, open_err = None, stream_err = None\<rparr>"

definition sample_request :: request where
  "sample_request =
     \<lparr>malformed = None,
      parts = [File_part ''file'' ''book.epub'' [80, 75], Value_part ''title'' ''My <T>''],
      query = []\<rparr>"

text \<open>What the engine is asked and what it answers on the sample request.\<close>

definition sample_args :: engine_args where
  "sample_args =
     engine_call ''01234567-89ab-4def-8123-456789abcdef''
       [''tmp'', ''lcp-encrypt-7'', ''book.epub''] [''tmp'', ''lcp-encrypt-7'', ''output'']"

definition sample_publication :: Publication where
  "sample_publication =
     \<lparr>UUID = ''01234567-89ab-4def-8123-456789abcdef'', Title = ''Moby Dick'',
      EncryptionKey = [1, 2, 3, 4], Size = 3, Checksum = ''c0ffee'',
      ContentType = ''application/epub+zip'', FileName = ''out.epub''\<rparr>"

text \<open>The same upload without a title field.\<close>

definition untitled_request :: request where
  "untitled_request = sample_request\<lparr>parts := [File_part ''file'' ''book.epub'' [80, 75]]\<rparr>"

text \<open>
  A plain-text reply as \<open>http.Error\<close> sends it: the status, the content type
  \<open>text/plain\<close>, and the message followed by a newline as the body.
\<close>

definition plain_reply :: "world \<Rightarrow> nat \<Rightarrow> string \<Rightarrow> bool" where
  "plain_reply w code msg =
     (status_of (sent (resp w)) = Some code \<and>
      headers_of (sent (resp w)) ''Content-Type'' = Some [''text/plain; charset=utf-8''] \<and>
      body_of (sent (resp w)) = bytes_of_string (msg @ [CHR 0x0A]))"

text \<open>The values \<open>json.Marshal\<close> encodes without looking further: strings and integers.\<close>

fun scalar :: "go_value \<Rightarrow> bool" where
  "scalar (GoString s) = True"
| "scalar (GoUint32 n) = True"
| "scalar v = False"

text \<open>
  The same environment with an engine that answers with another content key: the
  descriptor's \<open>EncryptionKey\<close> is replaced, everything else is as before.
\<close>

definition with_key :: "bytes \<Rightarrow> env \<Rightarrow> env" where
  "with_key k env =
     env\<lparr>engine := (\<lambda>a f. case engine env a f of
                          (Inl e, f') \<Rightarrow> (Inl e, f')
                        | (Inr pub, f') \<Rightarrow> (Inr (pub\<lparr>EncryptionKey := k\<rparr>), f'))\<rparr>"

text \<open>
  Two more engines: one that describes its three bytes as five, and one that writes an
  artifact of \<open>2 ^ 32\<close> bytes, whose length no 32-bit size can hold (it reports the
  length modulo \<open>2 ^ 32\<close>).
\<close>

definition misreporting_engine ::
  "engine_args \<Rightarrow> filesystem \<Rightarrow> (error + Publication) \<times> filesystem" where
  "misreporting_engine a f =
     (Inr \<lparr>UUID = contentID a, Title = ''Moby Dick'', EncryptionKey = [1, 2, 3, 4], Size = 5,
           Checksum = ''c0ffee'', ContentType = ''application/epub+zip'',
           FileName = ''out.epub''\<rparr>,
      f(outputRepo a @ [''out.epub''] \<mapsto> File [7, 8, 9]))"

definition huge_engine ::
  "engine_args \<Rightarrow> filesystem \<Rightarrow> (error + Publication) \<times> filesystem" where
  "huge_engine a f =
     (Inr \<lparr>UUID = contentID a, Title = ''Moby Dick'', EncryptionKey = [1, 2, 3, 4], Size = 0,
           Checksum = ''c0ffee'', ContentType = ''application/epub+zip'',
           FileName = ''out.epub''\<rparr>,
      f(outputRepo a @ [''out.epub''] \<mapsto> File (replicate (2 ^ 32) 0)))"

text \<open>An upload of one byte more than 50 MiB.\<close>

definition oversized_request :: request where
  "oversized_request =
     sample_request\<lparr>parts := [File_part ''file'' ''book.epub'' (replicate (50 * 2 ^ 20 + 1) 0)]\<rparr>"

text \<open>The bytes in the parts of a body; the body itself is longer (boundaries, part headers).\<close>

fun payload_bytes :: "part list \<Rightarrow> nat" where
  "payload_bytes [] = 0"
| "payload_bytes (Value_part name v # ps) = length v + payload_bytes ps"
| "payload_bytes (File_part name filename content # ps) = length content + payload_bytes ps"

lemmas sample_defs = sample_fs_def sample_engine_def sample_env_def sample_request_def
  sample_args_def sample_publication_def untitled_request_def oversized_request_def
  misreporting_engine_def huge_engine_def

section \<open>The library functions on known values\<close>

text \<open>The test vectors of RFC 4648 for base64, and some values of the other functions.\<close>

lemma base64_known_values:
  "EncodeToString (bytes_of_string ''foobar'') = ''Zm9vYmFy''"
  "EncodeToString (bytes_of_string ''fooba'') = ''Zm9vYmE=''"
  "EncodeToString (bytes_of_string ''foob'') = ''Zm9vYg==''"
  "EncodeToString [] = []"
  by (simp_all add: bytes_of_string_def sextet_def encodeStd_def Let_def)

lemma filepath_known_values:
  "filepath_Base ''../../etc/passwd'' = ''passwd''"
  "filepath_Base ''dir/'' = ''dir''"
  "filepath_Base ''/'' = ''/''"
  "filepath_Base [] = ''.''"
  "filepath_Join [''tmp'', ''w''] ''output'' = [''tmp'', ''w'', ''output'']"
  "filepath_Join [''tmp'', ''w''] ''a/../b'' = [''tmp'', ''w'', ''b'']"
  "filepath_Join [''tmp'', ''w''] ''..'' = [''tmp'']"
  by (simp_all add: filepath_Base_def filepath_Join_def)

lemma json_string_known_values:
  "json_string ''a\"b'' = [CHR 0x22, CHR ''a'', CHR 0x5C, CHR 0x22, CHR ''b'', CHR 0x22]"
  "json_string [CHR 0xC3, CHR 0xA9] = [CHR 0x22, CHR 0xC3, CHR 0xA9, CHR 0x22]"
  "json_string [CHR 0xFF] = CHR 0x22 # CHR 0x5C # ''ufffd'' @ [CHR 0x22]"
  "json_string [CHR 0xE2, CHR 0x80, CHR 0xA8] = CHR 0x22 # CHR 0x5C # ''u2028'' @ [CHR 0x22]"
  "json_string [CHR 0x01] = CHR 0x22 # CHR 0x5C # ''u0001'' @ [CHR 0x22]"
  by (simp_all add: json_string_def escape_ascii_def hextable_def is_cont_def)

lemma uuid_known_value:
  "uuid_String (uuid_New 0) = ''00000000-0000-4000-8000-000000000000''"
  by (simp add: uuid_String_def uuid_New_def bytes_of_word128_def hex_Encode_def hextable_def)

lemma show_nat_known_values:
  "show_nat 0 = ''0''" "show_nat 4294967295 = ''4294967295''"
  by (simp_all add: show_nat.simps)

section \<open>What the handler does on each path\<close>

lemmas handler_defs = EncryptEPUB_def EncryptEPUB_body_def respond_def saveMultipartFile_def
  run_deferred_def go_defer_def called_def log_Info_def log_Error_def reply_Error_def
  io_Copy_response_def io_Copy_file_def arriving_def Let_def

lemmas http_defs = http_Error_def Write_def WriteHeader_def Header_Set_def Header_Del_def

lemmas os_defs = os_Open_def os_MkdirAll_def os_MkdirTemp_def os_Create_def os_RemoveAll_def
  parent_is_dir_def prefixAndSuffix_def filepath_Join_def filepath_Base_def

lemmas request_defs = ParseMultipartForm_def FormFile_def FormValue_def

lemmas encoding_defs = engine_call_def metadata_of_def EncryptResponse_value_def
  uuid_String_def uuid_New_def bytes_of_word128_def hex_Encode_def hextable_def
  sextet_def encodeStd_def json_string_def escape_ascii_def bytes_of_string_def

text \<open>
  The text \<open>json.Marshal\<close> produces for the metadata record: one object, the seven
  fields in the order of the struct. It never fails.
\<close>

lemma marshal_metadata:
  "json_Marshal (EncryptResponse_value m) =
     Inr (''{\"uuid\":'' @ json_string (md_UUID m) @
          '',\"encryption_key\":'' @ json_string (md_EncryptionKey m) @
          '',\"size\":'' @ show_nat (unat (md_Size m)) @
          '',\"checksum\":'' @ json_string (md_Checksum m) @
          '',\"content_type\":'' @ json_string (md_ContentType m) @
          '',\"title\":'' @ json_string (md_Title m) @
          '',\"file_name\":'' @ json_string (md_FileName m) @ ''}'')"
  by (simp add: EncryptResponse_value_def json_string_def escape_ascii_def)

text \<open>
  Every run of the handler on an arriving request takes one of twelve paths. For each,
  the rule gives what decided it and what the world looks like when the handler has
  returned: what was sent, logged and called, the file system, and whether it panicked.
\<close>

lemma EncryptEPUB_outcomes:
  obtains
    (parse_failed) e where
      "ParseMultipartForm (spill_err env) r (50 * 2 ^ 20) = Some e"
      "sent (resp (EncryptEPUB env r (arriving fs0))) =
       [Head 400 [''Content-Type'' \<mapsto> [''text/plain; charset=utf-8''],
                  ''X-Content-Type-Options'' \<mapsto> [''nosniff'']],
        Chunk (bytes_of_string (''failed to parse multipart form'' @ [CHR 0x0A]))]"
      "logs (EncryptEPUB env r (arriving fs0)) =
       [(Info, ''EncryptEPUB: request received''),
        (Error, ''EncryptEPUB: failed to parse multipart form: '' @ e)]"
      "calls (EncryptEPUB env r (arriving fs0)) =
       []"
      "fs (EncryptEPUB env r (arriving fs0)) = fs0"
      "panic (EncryptEPUB env r (arriving fs0)) = None"
  | (file_missing) e where
      "ParseMultipartForm (spill_err env) r (50 * 2 ^ 20) = None"
      "FormFile (upload_open_err env) r ''file'' = Inl e"
      "sent (resp (EncryptEPUB env r (arriving fs0))) =
       [Head 400 [''Content-Type'' \<mapsto> [''text/plain; charset=utf-8''],
                  ''X-Content-Type-Options'' \<mapsto> [''nosniff'']],
        Chunk (bytes_of_string (''missing 'file' field'' @ [CHR 0x0A]))]"
      "logs (EncryptEPUB env r (arriving fs0)) =
       [(Info, ''EncryptEPUB: request received''),
        (Error, ''EncryptEPUB: missing file field: '' @ e)]"
      "calls (EncryptEPUB env r (arriving fs0)) =
       []"
      "fs (EncryptEPUB env r (arriving fs0)) = fs0"
      "panic (EncryptEPUB env r (arriving fs0)) = None"
  | (tempdir_failed) data fn e where
      "ParseMultipartForm (spill_err env) r (50 * 2 ^ 20) = None"
      "FormFile (upload_open_err env) r ''file'' = Inr (data, fn)"
      "os_MkdirTemp (mkdirtemp_draw env) (TempDir env) ''lcp-encrypt-*'' fs0 = Inl e"
      "sent (resp (EncryptEPUB env r (arriving fs0))) =
       [Head 500 [''Content-Type'' \<mapsto> [''text/plain; charset=utf-8''],
                  ''X-Content-Type-Options'' \<mapsto> [''nosniff'']],
        Chunk (bytes_of_string (''internal server error'' @ [CHR 0x0A]))]"
      "logs (EncryptEPUB env r (arriving fs0)) =
       [(Info, ''EncryptEPUB: request received''),
        (Error, ''EncryptEPUB: failed to create temp dir: '' @ e)]"
      "calls (EncryptEPUB env r (arriving fs0)) =
       [MkdirTemp ''lcp-encrypt-*'' (Inl e),
        Close_upload]"
      "fs (EncryptEPUB env r (arriving fs0)) = fs0"
      "panic (EncryptEPUB env r (arriving fs0)) = None"
  | (create_failed) data fn d fs1 e where
      "ParseMultipartForm (spill_err env) r (50 * 2 ^ 20) = None"
      "FormFile (upload_open_err env) r ''file'' = Inr (data, fn)"
      "os_MkdirTemp (mkdirtemp_draw env) (TempDir env) ''lcp-encrypt-*'' fs0 = Inr (d, fs1)"
      "os_Create (create_err env) (filepath_Join d fn) fs1 = Inl e"
      "sent (resp (EncryptEPUB env r (arriving fs0))) =
       [Head 500 [''Content-Type'' \<mapsto> [''text/plain; charset=utf-8''],
                  ''X-Content-Type-Options'' \<mapsto> [''nosniff'']],
        Chunk (bytes_of_string (''internal server error'' @ [CHR 0x0A]))]"
      "logs (EncryptEPUB env r (arriving fs0)) =
       [(Info, ''EncryptEPUB: request received''),
        (Error, ''EncryptEPUB: failed to save uploaded file: '' @ e)]"
      "calls (EncryptEPUB env r (arriving fs0)) =
       [MkdirTemp ''lcp-encrypt-*'' (Inr d),
        Create (filepath_Join d fn) (Some e),
        RemoveAll d,
        Close_upload]"
      "fs (EncryptEPUB env r (arriving fs0)) = os_RemoveAll d fs1"
      "panic (EncryptEPUB env r (arriving fs0)) = None"
  | (copy_failed) data fn d fs1 fs2 n e where
      "ParseMultipartForm (spill_err env) r (50 * 2 ^ 20) = None"
      "FormFile (upload_open_err env) r ''file'' = Inr (data, fn)"
      "os_MkdirTemp (mkdirtemp_draw env) (TempDir env) ''lcp-encrypt-*'' fs0 = Inr (d, fs1)"
      "os_Create (create_err env) (filepath_Join d fn) fs1 = Inr fs2"
      "save_copy_err env = Some (n, e)"
      "sent (resp (EncryptEPUB env r (arriving fs0))) =
       [Head 500 [''Content-Type'' \<mapsto> [''text/plain; charset=utf-8''],
                  ''X-Content-Type-Options'' \<mapsto> [''nosniff'']],
        Chunk (bytes_of_string (''internal server error'' @ [CHR 0x0A]))]"
      "logs (EncryptEPUB env r (arriving fs0)) =
       [(Info, ''EncryptEPUB: request received''),
        (Error, ''EncryptEPUB: failed to save uploaded file: '' @ e)]"
      "calls (EncryptEPUB env r (arriving fs0)) =
       [MkdirTemp ''lcp-encrypt-*'' (Inr d),
        Create (filepath_Join d fn) None,
        Copy_in (filepath_Join d fn) (Some e),
        Close (filepath_Join d fn),
        RemoveAll d,
        Close_upload]"
      "fs (EncryptEPUB env r (arriving fs0)) = os_RemoveAll d (fs2(filepath_Join d fn \<mapsto> File (take n data)))"
      "panic (EncryptEPUB env r (arriving fs0)) = None"
  | (uuid_panicked) data fn d fs1 fs2 e where
      "ParseMultipartForm (spill_err env) r (50 * 2 ^ 20) = None"
      "FormFile (upload_open_err env) r ''file'' = Inr (data, fn)"
      "os_MkdirTemp (mkdirtemp_draw env) (TempDir env) ''lcp-encrypt-*'' fs0 = Inr (d, fs1)"
      "os_Create (create_err env) (filepath_Join d fn) fs1 = Inr fs2"
      "save_copy_err env = None"
      "rand_read env = Inl e"
      "sent (resp (EncryptEPUB env r (arriving fs0))) =
       []"
      "logs (EncryptEPUB env r (arriving fs0)) =
       [(Info, ''EncryptEPUB: request received'')]"
      "calls (EncryptEPUB env r (arriving fs0)) =
       [MkdirTemp ''lcp-encrypt-*'' (Inr d),
        Create (filepath_Join d fn) None,
        Copy_in (filepath_Join d fn) None,
        Close (filepath_Join d fn),
        New_uuid (Inl e),
        RemoveAll d,
        Close_upload]"
      "fs (EncryptEPUB env r (arriving fs0)) = os_RemoveAll d (fs2(filepath_Join d fn \<mapsto> File data))"
      "panic (EncryptEPUB env r (arriving fs0)) = Some e"
  | (outdir_failed) data fn d fs1 fs2 rnd e where
      "ParseMultipartForm (spill_err env) r (50 * 2 ^ 20) = None"
      "FormFile (upload_open_err env) r ''file'' = Inr (data, fn)"
      "os_MkdirTemp (mkdirtemp_draw env) (TempDir env) ''lcp-encrypt-*'' fs0 = Inr (d, fs1)"
      "os_Create (create_err env) (filepath_Join d fn) fs1 = Inr fs2"
      "save_copy_err env = None"
      "rand_read env = Inr rnd"
      "os_MkdirAll (mkdirall_err env) (filepath_Join d ''output'')
         (fs2(filepath_Join d fn \<mapsto> File data)) = Inl e"
      "sent (resp (EncryptEPUB env r (arriving fs0))) =
       [Head 500 [''Content-Type'' \<mapsto> [''text/plain; charset=utf-8''],
                  ''X-Content-Type-Options'' \<mapsto> [''nosniff'']],
        Chunk (bytes_of_string (''internal server error'' @ [CHR 0x0A]))]"
      "logs (EncryptEPUB env r (arriving fs0)) =
       [(Info, ''EncryptEPUB: request received''),
        (Error, ''EncryptEPUB: failed to create output dir: '' @ e)]"
      "calls (EncryptEPUB env r (arriving fs0)) =
       [MkdirTemp ''lcp-encrypt-*'' (Inr d),
        Create (filepath_Join d fn) None,
        Copy_in (filepath_Join d fn) None,
        Close (filepath_Join d fn),
        New_uuid (Inr (uuid_New rnd)),
        MkdirAll (filepath_Join d ''output'') (Some e),
        RemoveAll d,
        Close_upload]"
      "fs (EncryptEPUB env r (arriving fs0)) = os_RemoveAll d (fs2(filepath_Join d fn \<mapsto> File data))"
      "panic (EncryptEPUB env r (arriving fs0)) = None"
  | (encryption_failed) data fn d fs1 fs2 rnd fs3 e fs4 where
      "ParseMultipartForm (spill_err env) r (50 * 2 ^ 20) = None"
      "FormFile (upload_open_err env) r ''file'' = Inr (data, fn)"
      "os_MkdirTemp (mkdirtemp_draw env) (TempDir env) ''lcp-encrypt-*'' fs0 = Inr (d, fs1)"
      "os_Create (create_err env) (filepath_Join d fn) fs1 = Inr fs2"
      "save_copy_err env = None"
      "rand_read env = Inr rnd"
      "os_MkdirAll (mkdirall_err env) (filepath_Join d ''output'')
         (fs2(filepath_Join d fn \<mapsto> File data)) = Inr fs3"
      "engine env (engine_call (uuid_String (uuid_New rnd)) (filepath_Join d fn) (filepath_Join d ''output'')) fs3 =
         (Inl e, fs4)"
      "sent (resp (EncryptEPUB env r (arriving fs0))) =
       [Head 500 [''Content-Type'' \<mapsto> [''text/plain; charset=utf-8''],
                  ''X-Content-Type-Options'' \<mapsto> [''nosniff'']],
        Chunk (bytes_of_string ((''encryption failed: '' @ e) @ [CHR 0x0A]))]"
      "logs (EncryptEPUB env r (arriving fs0)) =
       [(Info, ''EncryptEPUB: request received''),
        (Error, ''EncryptEPUB: encryption failed: '' @ e)]"
      "calls (EncryptEPUB env r (arriving fs0)) =
       [MkdirTemp ''lcp-encrypt-*'' (Inr d),
        Create (filepath_Join d fn) None,
        Copy_in (filepath_Join d fn) None,
        Close (filepath_Join d fn),
        New_uuid (Inr (uuid_New rnd)),
        MkdirAll (filepath_Join d ''output'') None,
        ProcessEncryption
          (engine_call (uuid_String (uuid_New rnd)) (filepath_Join d fn) (filepath_Join d ''output''))
          (Inl e),
        RemoveAll d,
        Close_upload]"
      "fs (EncryptEPUB env r (arriving fs0)) = os_RemoveAll d fs4"
      "panic (EncryptEPUB env r (arriving fs0)) = None"
  | (open_failed) data fn d fs1 fs2 rnd fs3 pub fs4 e where
      "ParseMultipartForm (spill_err env) r (50 * 2 ^ 20) = None"
      "FormFile (upload_open_err env) r ''file'' = Inr (data, fn)"
      "os_MkdirTemp (mkdirtemp_draw env) (TempDir env) ''lcp-encrypt-*'' fs0 = Inr (d, fs1)"
      "os_Create (create_err env) (filepath_Join d fn) fs1 = Inr fs2"
      "save_copy_err env = None"
      "rand_read env = Inr rnd"
      "os_MkdirAll (mkdirall_err env) (filepath_Join d ''output'')
         (fs2(filepath_Join d fn \<mapsto> File data)) = Inr fs3"
      "engine env (engine_call (uuid_String (uuid_New rnd)) (filepath_Join d fn) (filepath_Join d ''output'')) fs3 =
         (Inr pub, fs4)"
      "os_Open (open_err env) (filepath_Join (filepath_Join d ''output'') (FileName pub)) fs4 = Inl e"
      "sent (resp (EncryptEPUB env r (arriving fs0))) =
       [Head 500 [''Content-Type'' \<mapsto> [''text/plain; charset=utf-8''],
                  ''X-Content-Type-Options'' \<mapsto> [''nosniff'']],
        Chunk (bytes_of_string (''internal server error'' @ [CHR 0x0A]))]"
      "logs (EncryptEPUB env r (arriving fs0)) =
       [(Info, ''EncryptEPUB: request received''),
        (Error, ''EncryptEPUB: failed to open encrypted file: '' @ e)]"
      "calls (EncryptEPUB env r (arriving fs0)) =
       [MkdirTemp ''lcp-encrypt-*'' (Inr d),
        Create (filepath_Join d fn) None,
        Copy_in (filepath_Join d fn) None,
        Close (filepath_Join d fn),
        New_uuid (Inr (uuid_New rnd)),
        MkdirAll (filepath_Join d ''output'') None,
        ProcessEncryption
          (engine_call (uuid_String (uuid_New rnd)) (filepath_Join d fn) (filepath_Join d ''output''))
          (Inr pub),
        Open (filepath_Join (filepath_Join d ''output'') (FileName pub)) (Inl e),
        RemoveAll d,
        Close_upload]"
      "fs (EncryptEPUB env r (arriving fs0)) = os_RemoveAll d fs4"
      "panic (EncryptEPUB env r (arriving fs0)) = None"
  | (read_failed) data fn d fs1 fs2 rnd fs3 pub fs4 j where
      "ParseMultipartForm (spill_err env) r (50 * 2 ^ 20) = None"
      "FormFile (upload_open_err env) r ''file'' = Inr (data, fn)"
      "os_MkdirTemp (mkdirtemp_draw env) (TempDir env) ''lcp-encrypt-*'' fs0 = Inr (d, fs1)"
      "os_Create (create_err env) (filepath_Join d fn) fs1 = Inr fs2"
      "save_copy_err env = None"
      "rand_read env = Inr rnd"
      "os_MkdirAll (mkdirall_err env) (filepath_Join d ''output'')
         (fs2(filepath_Join d fn \<mapsto> File data)) = Inr fs3"
      "engine env (engine_call (uuid_String (uuid_New rnd)) (filepath_Join d fn) (filepath_Join d ''output'')) fs3 =
         (Inr pub, fs4)"
      "open_err env = None"
      "fs4 (filepath_Join (filepath_Join d ''output'') (FileName pub)) = Some Dir"
      "json_Marshal (EncryptResponse_value (metadata_of pub
         (if FormValue r ''title'' \<noteq> [] then FormValue r ''title'' else Title pub))) = Inr j"
      "sent (resp (EncryptEPUB env r (arriving fs0))) =
       Head 200 [''X-Encrypt-Metadata'' \<mapsto> [j],
                  ''Content-Type'' \<mapsto> [ContentType pub],
                  ''Content-Disposition'' \<mapsto>
                    [''attachment; filename=\"'' @ FileName pub @ ''\"'']]
        # []"
      "logs (EncryptEPUB env r (arriving fs0)) =
       [(Info, ''EncryptEPUB: request received''),
        (Error, ''EncryptEPUB: failed to stream encrypted file: read: is a directory'')]"
      "calls (EncryptEPUB env r (arriving fs0)) =
       [MkdirTemp ''lcp-encrypt-*'' (Inr d),
        Create (filepath_Join d fn) None,
        Copy_in (filepath_Join d fn) None,
        Close (filepath_Join d fn),
        New_uuid (Inr (uuid_New rnd)),
        MkdirAll (filepath_Join d ''output'') None,
        ProcessEncryption
          (engine_call (uuid_String (uuid_New rnd)) (filepath_Join d fn) (filepath_Join d ''output''))
          (Inr pub),
        Open (filepath_Join (filepath_Join d ''output'') (FileName pub)) (Inr Dir),
        Copy_out (Some ''read: is a directory''),
        Close (filepath_Join (filepath_Join d ''output'') (FileName pub)),
        RemoveAll d,
        Close_upload]"
      "fs (EncryptEPUB env r (arriving fs0)) = os_RemoveAll d fs4"
      "panic (EncryptEPUB env r (arriving fs0)) = None"
  | (stream_failed) data fn d fs1 fs2 rnd fs3 pub fs4 content j n e where
      "ParseMultipartForm (spill_err env) r (50 * 2 ^ 20) = None"
      "FormFile (upload_open_err env) r ''file'' = Inr (data, fn)"
      "os_MkdirTemp (mkdirtemp_draw env) (TempDir env) ''lcp-encrypt-*'' fs0 = Inr (d, fs1)"
      "os_Create (create_err env) (filepath_Join d fn) fs1 = Inr fs2"
      "save_copy_err env = None"
      "rand_read env = Inr rnd"
      "os_MkdirAll (mkdirall_err env) (filepath_Join d ''output'')
         (fs2(filepath_Join d fn \<mapsto> File data)) = Inr fs3"
      "engine env (engine_call (uuid_String (uuid_New rnd)) (filepath_Join d fn) (filepath_Join d ''output'')) fs3 =
         (Inr pub, fs4)"
      "open_err env = None"
      "fs4 (filepath_Join (filepath_Join d ''output'') (FileName pub)) = Some (File content)"
      "json_Marshal (EncryptResponse_value (metadata_of pub
         (if FormValue r ''title'' \<noteq> [] then FormValue r ''title'' else Title pub))) = Inr j"
      "stream_err env = Some (n, e)"
      "sent (resp (EncryptEPUB env r (arriving fs0))) =
       Head 200 [''X-Encrypt-Metadata'' \<mapsto> [j],
                  ''Content-Type'' \<mapsto> [ContentType pub],
                  ''Content-Disposition'' \<mapsto>
                    [''attachment; filename=\"'' @ FileName pub @ ''\"'']]
        # [Chunk (take n content)]"
      "logs (EncryptEPUB env r (arriving fs0)) =
       [(Info, ''EncryptEPUB: request received''),
        (Error, ''EncryptEPUB: failed to stream encrypted file: '' @ e)]"
      "calls (EncryptEPUB env r (arriving fs0)) =
       [MkdirTemp ''lcp-encrypt-*'' (Inr d),
        Create (filepath_Join d fn) None,
        Copy_in (filepath_Join d fn) None,
        Close (filepath_Join d fn),
        New_uuid (Inr (uuid_New rnd)),
        MkdirAll (filepath_Join d ''output'') None,
        ProcessEncryption
          (engine_call (uuid_String (uuid_New rnd)) (filepath_Join d fn) (filepath_Join d ''output''))
          (Inr pub),
        Open (filepath_Join (filepath_Join d ''output'') (FileName pub)) (Inr (File content)),
        Copy_out (Some e),
        Close (filepath_Join (filepath_Join d ''output'') (FileName pub)),
        RemoveAll d,
        Close_upload]"
      "fs (EncryptEPUB env r (arriving fs0)) = os_RemoveAll d fs4"
      "panic (EncryptEPUB env r (arriving fs0)) = None"
  | (completed) data fn d fs1 fs2 rnd fs3 pub fs4 content j where
      "ParseMultipartForm (spill_err env) r (50 * 2 ^ 20) = None"
      "FormFile (upload_open_err env) r ''file'' = Inr (data, fn)"
      "os_MkdirTemp (mkdirtemp_draw env) (TempDir env) ''lcp-encrypt-*'' fs0 = Inr (d, fs1)"
      "os_Create (create_err env) (filepath_Join d fn) fs1 = Inr fs2"
      "save_copy_err env = None"
      "rand_read env = Inr rnd"
      "os_MkdirAll (mkdirall_err env) (filepath_Join d ''output'')
         (fs2(filepath_Join d fn \<mapsto> File data)) = Inr fs3"
      "engine env (engine_call (uuid_String (uuid_New rnd)) (filepath_Join d fn) (filepath_Join d ''output'')) fs3 =
         (Inr pub, fs4)"
      "open_err env = None"
      "fs4 (filepath_Join (filepath_Join d ''output'') (FileName pub)) = Some (File content)"
      "json_Marshal (EncryptResponse_value (metadata_of pub
         (if FormValue r ''title'' \<noteq> [] then FormValue r ''title'' else Title pub))) = Inr j"
      "stream_err env = None"
      "sent (resp (EncryptEPUB env r (arriving fs0))) =
       Head 200 [''X-Encrypt-Metadata'' \<mapsto> [j],
                  ''Content-Type'' \<mapsto> [ContentType pub],
                  ''Content-Disposition'' \<mapsto>
                    [''attachment; filename=\"'' @ FileName pub @ ''\"'']]
        # [Chunk content]"
      "logs (EncryptEPUB env r (arriving fs0)) =
       [(Info, ''EncryptEPUB: request received''),
        (Info, ''EncryptEPUB: success, uuid='' @ UUID pub @ '', title='' @
               (if FormValue r ''title'' \<noteq> [] then FormValue r ''title'' else Title pub) @
               '', size='' @ show_nat (unat (Size pub)))]"
      "calls (EncryptEPUB env r (arriving fs0)) =
       [MkdirTemp ''lcp-encrypt-*'' (Inr d),
        Create (filepath_Join d fn) None,
        Copy_in (filepath_Join d fn) None,
        Close (filepath_Join d fn),
        New_uuid (Inr (uuid_New rnd)),
        MkdirAll (filepath_Join d ''output'') None,
        ProcessEncryption
          (engine_call (uuid_String (uuid_New rnd)) (filepath_Join d fn) (filepath_Join d ''output''))
          (Inr pub),
        Open (filepath_Join (filepath_Join d ''output'') (FileName pub)) (Inr (File content)),
        Copy_out None,
        Close (filepath_Join (filepath_Join d ''output'') (FileName pub)),
        RemoveAll d,
        Close_upload]"
      "fs (EncryptEPUB env r (arriving fs0)) = os_RemoveAll d fs4"
      "panic (EncryptEPUB env r (arriving fs0)) = None"
proof (cases "ParseMultipartForm (spill_err env) r (50 * 2 ^ 20)")
  case (Some e)
  show ?thesis
    apply (rule parse_failed [of e])
    using Some apply (simp_all add: handler_defs http_defs)
    done
next
  case None
  note parse = None
  show ?thesis
  proof (cases "FormFile (upload_open_err env) r ''file''")
    case (Inl e)
    show ?thesis
      apply (rule file_missing [of e])
      using parse Inl apply (simp_all add: handler_defs http_defs)
      done
  next
    case (Inr up)
    then obtain data fn where upload: "FormFile (upload_open_err env) r ''file'' = Inr (data, fn)"
      by (cases up) simp
    show ?thesis
    proof (cases "os_MkdirTemp (mkdirtemp_draw env) (TempDir env) ''lcp-encrypt-*'' fs0")
      case (Inl e)
      show ?thesis
        apply (rule tempdir_failed [of data fn e])
        using parse upload Inl apply (simp_all add: handler_defs http_defs)
        done
    next
      case (Inr made)
      then obtain d fs1 where
        tmp: "os_MkdirTemp (mkdirtemp_draw env) (TempDir env) ''lcp-encrypt-*'' fs0 = Inr (d, fs1)"
        by (cases made) simp
      note pre_save = parse upload tmp
      show ?thesis
      proof (cases "os_Create (create_err env) (filepath_Join d fn) fs1")
        case (Inl e)
        show ?thesis
          apply (rule create_failed [of data fn d fs1 e])
          using pre_save Inl apply (simp_all add: handler_defs http_defs)
          done
      next
        case (Inr fs2)
        note created = Inr
        show ?thesis
        proof (cases "save_copy_err env")
          case (Some ne)
          then obtain n e where copy: "save_copy_err env = Some (n, e)"
            by (cases ne) simp
          show ?thesis
            apply (rule copy_failed [of data fn d fs1 fs2 n e])
            using pre_save created copy apply (simp_all add: handler_defs http_defs)
            done
        next
          case None
          note pre_uuid = pre_save created None
          show ?thesis
          proof (cases "rand_read env")
            case (Inl e)
            show ?thesis
              apply (rule uuid_panicked [of data fn d fs1 fs2 e])
              using pre_uuid Inl apply (simp_all add: handler_defs http_defs)
              done
          next
            case (Inr rnd)
            note pre_out = pre_uuid Inr
            show ?thesis
            proof (cases "os_MkdirAll (mkdirall_err env) (filepath_Join d ''output'')
                            (fs2(filepath_Join d fn \<mapsto> File data))")
              case (Inl e)
              show ?thesis
                apply (rule outdir_failed [of data fn d fs1 fs2 rnd e])
                using pre_out Inl apply (simp_all add: handler_defs http_defs)
                done
            next
              case (Inr fs3)
              note pre_eng = pre_out Inr
              obtain res fs4 where
                eng: "engine env (engine_call (uuid_String (uuid_New rnd)) (filepath_Join d fn)
                        (filepath_Join d ''output'')) fs3 = (res, fs4)"
                by (cases "engine env (engine_call (uuid_String (uuid_New rnd)) (filepath_Join d fn)
                        (filepath_Join d ''output'')) fs3") simp
              show ?thesis
              proof (cases res)
                case (Inl e)
                show ?thesis
                  apply (rule encryption_failed [of data fn d fs1 fs2 rnd fs3 e fs4])
                  using pre_eng eng Inl apply (simp_all add: handler_defs http_defs)
                  done
              next
                case (Inr pub)
                with eng have eng_ok:
                  "engine env (engine_call (uuid_String (uuid_New rnd)) (filepath_Join d fn)
                     (filepath_Join d ''output'')) fs3 = (Inr pub, fs4)"
                  by simp
                note pre_open = pre_eng eng_ok
                obtain j where marshal:
                  "json_Marshal (EncryptResponse_value (metadata_of pub
                     (if FormValue r ''title'' \<noteq> [] then FormValue r ''title'' else Title pub))) = Inr j"
                  by (simp add: marshal_metadata)
                show ?thesis
                proof (cases "os_Open (open_err env)
                                (filepath_Join (filepath_Join d ''output'') (FileName pub)) fs4")
                  case (Inl e)
                  show ?thesis
                    apply (rule open_failed [of data fn d fs1 fs2 rnd fs3 pub fs4 e])
                    using pre_open Inl apply (simp_all add: handler_defs http_defs)
                    done
                next
                  case (Inr f)
                  then obtain nd where
                    no_err: "open_err env = None" and
                    there: "fs4 (filepath_Join (filepath_Join d ''output'') (FileName pub)) = Some nd" and
                    opened: "os_Open (open_err env)
                       (filepath_Join (filepath_Join d ''output'') (FileName pub)) fs4 =
                       Inr (filepath_Join (filepath_Join d ''output'') (FileName pub), nd)"
                    by (auto simp: os_Open_def split: option.splits)
                  show ?thesis
                  proof (cases nd)
                    case Dir
                    show ?thesis
                      apply (rule read_failed [of data fn d fs1 fs2 rnd fs3 pub fs4 j])
                      using pre_open marshal no_err there opened Dir
                      apply (simp_all add: handler_defs http_defs)
                      done
                  next
                    case (File content)
                    note pre_stream = pre_open marshal no_err there opened File
                    show ?thesis
                    proof (cases "stream_err env")
                      case (Some ne)
                      then obtain n e where stream: "stream_err env = Some (n, e)"
                        by (cases ne) simp
                      show ?thesis
                        apply (rule stream_failed [of data fn d fs1 fs2 rnd fs3 pub fs4 content j n e])
                        using pre_stream stream apply (simp_all add: handler_defs http_defs)
                        done
                    next
                      case None
                      show ?thesis
                        apply (rule completed [of data fn d fs1 fs2 rnd fs3 pub fs4 content j])
                        using pre_stream None apply (simp_all add: handler_defs http_defs)
                        done
                    qed
                  qed
                qed
              qed
            qed
          qed
        qed
      qed
    qed
  qed
qed

subsection \<open>The staged file lies in the workspace\<close>





subsection \<open>What the engine finds\<close>





subsection \<open>Deferred calls\<close>



subsection \<open>The sample request, evaluated\<close>

lemmas eval_defs = handler_defs http_defs os_defs request_defs encoding_defs sample_defs
  show_nat.simps

lemma sample_calls:
  "calls (EncryptEPUB sample_env sample_request (arriving sample_fs)) =
     [MkdirTemp ''lcp-encrypt-*'' (Inr [''tmp'', ''lcp-encrypt-7'']),
      Create [''tmp'', ''lcp-encrypt-7'', ''book.epub''] None,
      Copy_in [''tmp'', ''lcp-encrypt-7'', ''book.epub''] None,
      Close [''tmp'', ''lcp-encrypt-7'', ''book.epub''],
      New_uuid (Inr [0x01, 0x23, 0x45, 0x67, 0x89, 0xab, 0x4d, 0xef,
                     0x81, 0x23, 0x45, 0x67, 0x89, 0xab, 0xcd, 0xef]),
      MkdirAll [''tmp'', ''lcp-encrypt-7'', ''output''] None,
      ProcessEncryption sample_args (Inr sample_publication),
      Open [''tmp'', ''lcp-encrypt-7'', ''output'', ''out.epub''] (Inr (File [7, 8, 9])),
      Copy_out None,
      Close [''tmp'', ''lcp-encrypt-7'', ''output'', ''out.epub''],
      RemoveAll [''tmp'', ''lcp-encrypt-7''],
      Close_upload]"
  by (simp add: eval_defs)


section \<open>The claims\<close>




text \<open>
  C5. A request whose form has no file part named \<open>file\<close> is answered with status 400,
  and the handler makes no call at all for it: no temporary directory is created and
  the file system is as it was.
\<close>

theorem missing_file_is_400_without_workspace:
  assumes "file_parts ''file'' (parts r) = []"
  shows "status_of (sent (resp (EncryptEPUB env r (arriving fs0)))) = Some 400
       \<and> calls (EncryptEPUB env r (arriving fs0)) = []
       \<and> fs (EncryptEPUB env r (arriving fs0)) = fs0"
proof -
  have no_file: "FormFile (upload_open_err env) r ''file'' \<noteq> Inr (data, fn)" for data fn
    using assms by (simp add: FormFile_def)
  show ?thesis
  proof (cases rule: EncryptEPUB_outcomes [of env r fs0])
    case (parse_failed e)
    then show ?thesis by simp
  next
    case (file_missing e)
    then show ?thesis by simp
  qed (use no_file in blast)+
qed

theorem missing_file_is_400_without_workspace_witness:
  "file_parts ''file'' (parts (sample_request\<lparr>parts := [Value_part ''title'' ''x'']\<rparr>)) = []
   \<and> status_of (sent (resp (EncryptEPUB sample_env
         (sample_request\<lparr>parts := [Value_part ''title'' ''x'']\<rparr>) (arriving sample_fs)))) = Some 400
   \<and> calls (EncryptEPUB sample_env
         (sample_request\<lparr>parts := [Value_part ''title'' ''x'']\<rparr>) (arriving sample_fs)) = []"
  using missing_file_is_400_without_workspace
    [of "sample_request\<lparr>parts := [Value_part ''title'' ''x'']\<rparr>" sample_env sample_fs]
  by simp



text \<open>
  C6. On a request that completed, exactly two things were sent, in this order: the
  status 200 with the headers, then the body. The body is the content of the file
  opened at the descriptor's file name in the output directory. The headers hold the
  metadata as one JSON object of the seven fields \<open>uuid\<close>, \<open>encryption_key\<close> (the
  base64 text of the raw key), \<open>size\<close>, \<open>checksum\<close>, \<open>content_type\<close>, \<open>title\<close>
  (after the override) and \<open>file_name\<close>; the descriptor's content type; and the
  disposition \<open>attachment\<close> with the descriptor's file name between double quotes.
\<close>

theorem success_response_shape:
  assumes "Copy_out None \<in> set (calls (EncryptEPUB env r (arriving fs0)))"
    and "ProcessEncryption args (Inr pub) \<in> set (calls (EncryptEPUB env r (arriving fs0)))"
  shows "sent (resp (EncryptEPUB env r (arriving fs0))) =
           [Head 200 (headers_of (sent (resp (EncryptEPUB env r (arriving fs0))))),
            Chunk (body_of (sent (resp (EncryptEPUB env r (arriving fs0)))))]
       \<and> Open (filepath_Join (outputRepo args) (FileName pub))
            (Inr (File (body_of (sent (resp (EncryptEPUB env r (arriving fs0)))))))
            \<in> set (calls (EncryptEPUB env r (arriving fs0)))
       \<and> headers_of (sent (resp (EncryptEPUB env r (arriving fs0)))) ''X-Encrypt-Metadata'' =
            Some [''{\"uuid\":'' @ json_string (UUID pub) @
                  '',\"encryption_key\":'' @ json_string (EncodeToString (EncryptionKey pub)) @
                  '',\"size\":'' @ show_nat (unat (Size pub)) @
                  '',\"checksum\":'' @ json_string (Checksum pub) @
                  '',\"content_type\":'' @ json_string (ContentType pub) @
                  '',\"title\":'' @
                     json_string (if FormValue r ''title'' \<noteq> [] then FormValue r ''title''
                                  else Title pub) @
                  '',\"file_name\":'' @ json_string (FileName pub) @ ''}'']
       \<and> headers_of (sent (resp (EncryptEPUB env r (arriving fs0)))) ''Content-Type'' =
            Some [ContentType pub]
       \<and> headers_of (sent (resp (EncryptEPUB env r (arriving fs0)))) ''Content-Disposition'' =
            Some [''attachment; filename=\"'' @ FileName pub @ ''\"'']"
proof (cases rule: EncryptEPUB_outcomes [of env r fs0])
  case (completed data fn d fs1 fs2 rnd fs3 pub' fs4 content j)
  from assms(2) completed(15) have pub: "pub' = pub"
    and args: "args = engine_call (uuid_String (uuid_New rnd)) (filepath_Join d fn) (filepath_Join d ''output'')"
    by simp_all
  have j: "j = ''{\"uuid\":'' @ json_string (UUID pub) @
                    '',\"encryption_key\":'' @ json_string (EncodeToString (EncryptionKey pub)) @
                    '',\"size\":'' @ show_nat (unat (Size pub)) @
                    '',\"checksum\":'' @ json_string (Checksum pub) @
                    '',\"content_type\":'' @ json_string (ContentType pub) @
                    '',\"title\":'' @ json_string (if FormValue r ''title'' \<noteq> [] then FormValue r ''title'' else Title pub) @
                    '',\"file_name\":'' @ json_string (FileName pub) @ ''}''"
    using completed(11) unfolding pub marshal_metadata by (simp add: metadata_of_def)
  have out: "outputRepo args = filepath_Join d ''output''"
    by (simp add: args engine_call_def)
  show ?thesis
    unfolding completed(13) completed(15) out
    by (simp add: j pub)
qed (use assms in simp_all)


theorem success_response_shape_witness:
  "Copy_out None \<in> set (calls (EncryptEPUB sample_env sample_request (arriving sample_fs)))
   \<and> ProcessEncryption sample_args (Inr sample_publication)
        \<in> set (calls (EncryptEPUB sample_env sample_request (arriving sample_fs)))
   \<and> status_of (sent (resp (EncryptEPUB sample_env sample_request (arriving sample_fs)))) = Some 200
   \<and> body_of (sent (resp (EncryptEPUB sample_env sample_request (arriving sample_fs)))) = [7, 8, 9]
   \<and> headers_of (sent (resp (EncryptEPUB sample_env sample_request (arriving sample_fs))))
        ''X-Encrypt-Metadata'' =
        Some [''{\"uuid\":\"01234567-89ab-4def-8123-456789abcdef\",\"encryption_key\":\"AQIDBA==\",'' @
              ''\"size\":3,\"checksum\":\"c0ffee\",\"content_type\":\"application/epub+zip\",'' @
              ''\"title\":\"My '' @ [CHR 0x5C] @ ''u003cT'' @ [CHR 0x5C] @ ''u003e\",'' @
              ''\"file_name\":\"out.epub\"}'']
   \<and> headers_of (sent (resp (EncryptEPUB sample_env sample_request (arriving sample_fs))))
        ''Content-Disposition'' = Some [''attachment; filename=\"out.epub\"'']"
proof -
  have finished: "Copy_out None \<in> set (calls (EncryptEPUB sample_env sample_request (arriving sample_fs)))"
    and engine: "ProcessEncryption sample_args (Inr sample_publication)
        \<in> set (calls (EncryptEPUB sample_env sample_request (arriving sample_fs)))"
    by (simp_all add: sample_calls)
  have shape: "sent (resp (EncryptEPUB sample_env sample_request (arriving sample_fs))) =
           [Head 200 (headers_of (sent (resp (EncryptEPUB sample_env sample_request (arriving sample_fs))))),
            Chunk (body_of (sent (resp (EncryptEPUB sample_env sample_request (arriving sample_fs)))))]"
    and body: "Open (filepath_Join (outputRepo sample_args) (FileName sample_publication))
            (Inr (File (body_of (sent (resp (EncryptEPUB sample_env sample_request (arriving sample_fs)))))))
            \<in> set (calls (EncryptEPUB sample_env sample_request (arriving sample_fs)))"
    and rest: "headers_of (sent (resp (EncryptEPUB sample_env sample_request (arriving sample_fs)))) ''X-Encrypt-Metadata'' =
            Some [''{\"uuid\":'' @ json_string (UUID sample_publication) @
                  '',\"encryption_key\":'' @ json_string (EncodeToString (EncryptionKey sample_publication)) @
                  '',\"size\":'' @ show_nat (unat (Size sample_publication)) @
                  '',\"checksum\":'' @ json_string (Checksum sample_publication) @
                  '',\"content_type\":'' @ json_string (ContentType sample_publication) @
                  '',\"title\":'' @
                     json_string (if FormValue sample_request ''title'' \<noteq> [] then FormValue sample_request ''title''
                                  else Title sample_publication) @
                  '',\"file_name\":'' @ json_string (FileName sample_publication) @ ''}'']"
      "headers_of (sent (resp (EncryptEPUB sample_env sample_request (arriving sample_fs)))) ''Content-Disposition'' =
            Some [''attachment; filename=\"'' @ FileName sample_publication @ ''\"'']"
    using success_response_shape [OF finished engine] by blast+
  have status: "status_of (sent (resp (EncryptEPUB sample_env sample_request (arriving sample_fs)))) = Some 200"
    by (subst shape) simp
  have bytes: "body_of (sent (resp (EncryptEPUB sample_env sample_request (arriving sample_fs)))) = [7, 8, 9]"
    using body by (simp add: sample_calls)
  show ?thesis
    using finished engine status bytes rest
    by (simp add: sample_publication_def encoding_defs request_defs sample_defs show_nat.simps)
qed

text \<open>
  C2. The claim is that on every request that completed the size in the metadata is
  the byte length of the body. The handler copies the size from the descriptor and
  never compares it with the file, so this holds exactly when the descriptor is right
  about the file. What holds on every request that completed: with \<open>pub\<close> the
  descriptor the engine returned and \<open>content\<close> the file the handler opened, the
  engine was called once; the file opened is the one at the descriptor's file name in
  the output directory, as the engine left it; the body sent is exactly its content;
  the metadata in the header is the record made from the same \<open>pub\<close>, with its key
  (in base64), its checksum and its size; and the size in the metadata is the length
  of the body if and only if the descriptor's size is the length of that file
  (\<open>size_describes\<close>).
\<close>

theorem metadata_and_body_from_one_descriptor:
  assumes "Copy_out None \<in> set (calls (EncryptEPUB env r (arriving fs0)))"
    and "ProcessEncryption args (Inr pub) \<in> set (calls (EncryptEPUB env r (arriving fs0)))"
    and "Open p (Inr (File content)) \<in> set (calls (EncryptEPUB env r (arriving fs0)))"
  shows "p = filepath_Join (outputRepo args) (FileName pub)
       \<and> (\<exists>fs3 fs4. engine env args fs3 = (Inr pub, fs4) \<and> fs4 p = Some (File content))
       \<and> filter is_engine_call (calls (EncryptEPUB env r (arriving fs0))) =
            [ProcessEncryption args (Inr pub)]
       \<and> body_of (sent (resp (EncryptEPUB env r (arriving fs0)))) = content
       \<and> (\<exists>t j. headers_of (sent (resp (EncryptEPUB env r (arriving fs0)))) ''X-Encrypt-Metadata'' = Some [j]
              \<and> json_Marshal (EncryptResponse_value (metadata_of pub t)) = Inr j
              \<and> md_EncryptionKey (metadata_of pub t) = EncodeToString (EncryptionKey pub)
              \<and> md_Checksum (metadata_of pub t) = Checksum pub
              \<and> md_Size (metadata_of pub t) = Size pub
              \<and> (unat (md_Size (metadata_of pub t)) =
                    length (body_of (sent (resp (EncryptEPUB env r (arriving fs0))))))
                 = size_describes pub content)"
proof (cases rule: EncryptEPUB_outcomes [of env r fs0])
  case (completed data fn d fs1 fs2 rnd fs3 pub' fs4 content' j)
  let ?t = "if FormValue r ''title'' \<noteq> [] then FormValue r ''title'' else Title pub"
  from assms(2) completed(15) have pub: "pub' = pub"
    and args: "args = engine_call (uuid_String (uuid_New rnd)) (filepath_Join d fn) (filepath_Join d ''output'')"
    by simp_all
  have out: "outputRepo args = filepath_Join d ''output''"
    by (simp add: args engine_call_def)
  from assms(3) completed(15) have p: "p = filepath_Join (outputRepo args) (FileName pub)"
    and content: "content' = content"
    by (simp_all add: out pub)
  have "engine env args fs3 = (Inr pub, fs4)"
    using completed(8) by (simp add: args pub)
  moreover have "fs4 p = Some (File content)"
    using completed(10) by (simp add: p out pub content)
  moreover have "filter is_engine_call (calls (EncryptEPUB env r (arriving fs0))) =
            [ProcessEncryption args (Inr pub)]"
    by (simp add: completed(15) args pub)
  moreover have body: "body_of (sent (resp (EncryptEPUB env r (arriving fs0)))) = content"
    by (simp add: completed(13) content)
  moreover have "headers_of (sent (resp (EncryptEPUB env r (arriving fs0)))) ''X-Encrypt-Metadata'' = Some [j]"
    by (simp add: completed(13))
  moreover have "json_Marshal (EncryptResponse_value (metadata_of pub ?t)) = Inr j"
    using completed(11) unfolding pub .
  moreover have "md_EncryptionKey (metadata_of pub ?t) = EncodeToString (EncryptionKey pub)"
    "md_Checksum (metadata_of pub ?t) = Checksum pub"
    "md_Size (metadata_of pub ?t) = Size pub"
    by (simp_all add: metadata_of_def)
  moreover have "(unat (md_Size (metadata_of pub ?t)) =
      length (body_of (sent (resp (EncryptEPUB env r (arriving fs0))))))
      = size_describes pub content"
    by (simp add: metadata_of_def body size_describes_def)
  ultimately show ?thesis
    using p by blast
qed (use assms in simp_all)

theorem metadata_and_body_from_one_descriptor_witness:
  "Copy_out None \<in> set (calls (EncryptEPUB sample_env sample_request (arriving sample_fs)))
   \<and> ProcessEncryption sample_args (Inr sample_publication)
        \<in> set (calls (EncryptEPUB sample_env sample_request (arriving sample_fs)))
   \<and> Open [''tmp'', ''lcp-encrypt-7'', ''output'', ''out.epub''] (Inr (File [7, 8, 9]))
        \<in> set (calls (EncryptEPUB sample_env sample_request (arriving sample_fs)))
   \<and> body_of (sent (resp (EncryptEPUB sample_env sample_request (arriving sample_fs)))) = [7, 8, 9]
   \<and> filter is_engine_call (calls (EncryptEPUB sample_env sample_request (arriving sample_fs))) =
        [ProcessEncryption sample_args (Inr sample_publication)]
   \<and> size_describes sample_publication [7, 8, 9]"
proof -
  have hyps: "Copy_out None \<in> set (calls (EncryptEPUB sample_env sample_request (arriving sample_fs)))"
    "ProcessEncryption sample_args (Inr sample_publication)
        \<in> set (calls (EncryptEPUB sample_env sample_request (arriving sample_fs)))"
    "Open [''tmp'', ''lcp-encrypt-7'', ''output'', ''out.epub''] (Inr (File [7, 8, 9]))
        \<in> set (calls (EncryptEPUB sample_env sample_request (arriving sample_fs)))"
    by (simp_all add: sample_calls)
  have "size_describes sample_publication [7, 8, 9]"
    by (simp add: size_describes_def sample_publication_def)
  with metadata_and_body_from_one_descriptor [OF hyps] hyps show ?thesis
    by blast
qed

text \<open>
  C2, as it was claimed, fails: with an engine that describes its three bytes as
  five, the request completes with status 200, \<open>"size":5\<close> in the metadata and a body
  of three bytes; and with an artifact of \<open>2 ^ 32\<close> bytes the request completes with
  \<open>"size":0\<close>, since the size is a 32-bit number.
\<close>

theorem size_field_differs_from_body_length:
  "Copy_out None \<in> set (calls (EncryptEPUB (sample_env\<lparr>engine := misreporting_engine\<rparr>)
        sample_request (arriving sample_fs)))
   \<and> status_of (sent (resp (EncryptEPUB (sample_env\<lparr>engine := misreporting_engine\<rparr>)
        sample_request (arriving sample_fs)))) = Some 200
   \<and> headers_of (sent (resp (EncryptEPUB (sample_env\<lparr>engine := misreporting_engine\<rparr>)
        sample_request (arriving sample_fs)))) ''X-Encrypt-Metadata'' =
        Some [''{\"uuid\":\"01234567-89ab-4def-8123-456789abcdef\",\"encryption_key\":\"AQIDBA==\",'' @
              ''\"size\":5,\"checksum\":\"c0ffee\",\"content_type\":\"application/epub+zip\",'' @
              ''\"title\":\"My '' @ [CHR 0x5C] @ ''u003cT'' @ [CHR 0x5C] @ ''u003e\",'' @
              ''\"file_name\":\"out.epub\"}'']
   \<and> length (body_of (sent (resp (EncryptEPUB (sample_env\<lparr>engine := misreporting_engine\<rparr>)
        sample_request (arriving sample_fs))))) = 3
   \<and> Copy_out None \<in> set (calls (EncryptEPUB (sample_env\<lparr>engine := huge_engine\<rparr>)
        sample_request (arriving sample_fs)))
   \<and> status_of (sent (resp (EncryptEPUB (sample_env\<lparr>engine := huge_engine\<rparr>)
        sample_request (arriving sample_fs)))) = Some 200
   \<and> headers_of (sent (resp (EncryptEPUB (sample_env\<lparr>engine := huge_engine\<rparr>)
        sample_request (arriving sample_fs)))) ''X-Encrypt-Metadata'' =
        Some [''{\"uuid\":\"01234567-89ab-4def-8123-456789abcdef\",\"encryption_key\":\"AQIDBA==\",'' @
              ''\"size\":0,\"checksum\":\"c0ffee\",\"content_type\":\"application/epub+zip\",'' @
              ''\"title\":\"My '' @ [CHR 0x5C] @ ''u003cT'' @ [CHR 0x5C] @ ''u003e\",'' @
              ''\"file_name\":\"out.epub\"}'']
   \<and> length (body_of (sent (resp (EncryptEPUB (sample_env\<lparr>engine := huge_engine\<rparr>)
        sample_request (arriving sample_fs))))) = 2 ^ 32"
  by (simp add: eval_defs)





lemma marshal_failure_reply:
  assumes "\<not> wroteHeader (resp w)" and "sent (resp w) = []"
  shows "plain_reply (respond env pub t f (Inl e) w) 500 ''internal server error''"
    and "calls (respond env pub t f (Inl e) w) = calls w"
  using assms
  by (simp_all add: respond_def reply_Error_def log_Error_def http_defs plain_reply_def)

text \<open>
  C7. Each failure inside the handler is answered with status 500 and a plain-text
  body naming its class: \<open>internal server error\<close> when the temporary directory or the
  output directory cannot be created, when the upload cannot be created or written in
  the workspace, when the encrypted file cannot be opened and when the metadata cannot
  be marshalled; \<open>encryption failed:\<close> followed by the engine's message when the
  engine fails. A multipart form that does not parse and a form without the file are
  answered with status 400. In each case the failed call is the last one the handler
  makes apart from releasing what it holds: nothing is tried again. The failure to
  marshal is stated on \<open>respond\<close>, the part of the handler that receives the result
  of \<open>json.Marshal\<close>.
\<close>

theorem failures_map_to_status:
  "(ParseMultipartForm (spill_err env) r (50 * 2 ^ 20) = Some e \<longrightarrow>
      plain_reply (EncryptEPUB env r (arriving fs0)) 400 ''failed to parse multipart form'' \<and>
      calls (EncryptEPUB env r (arriving fs0)) = [])
   \<and> (ParseMultipartForm (spill_err env) r (50 * 2 ^ 20) = None \<and>
        FormFile (upload_open_err env) r ''file'' = Inl e \<longrightarrow>
      plain_reply (EncryptEPUB env r (arriving fs0)) 400 ''missing 'file' field'' \<and>
      calls (EncryptEPUB env r (arriving fs0)) = [])
   \<and> (MkdirTemp pat (Inl e) \<in> set (calls (EncryptEPUB env r (arriving fs0))) \<longrightarrow>
      plain_reply (EncryptEPUB env r (arriving fs0)) 500 ''internal server error'' \<and>
      last (filter (\<lambda>c. \<not> cleanup c) (calls (EncryptEPUB env r (arriving fs0)))) = MkdirTemp pat (Inl e))
   \<and> (Create p (Some e) \<in> set (calls (EncryptEPUB env r (arriving fs0))) \<longrightarrow>
      plain_reply (EncryptEPUB env r (arriving fs0)) 500 ''internal server error'' \<and>
      last (filter (\<lambda>c. \<not> cleanup c) (calls (EncryptEPUB env r (arriving fs0)))) = Create p (Some e))
   \<and> (Copy_in p (Some e) \<in> set (calls (EncryptEPUB env r (arriving fs0))) \<longrightarrow>
      plain_reply (EncryptEPUB env r (arriving fs0)) 500 ''internal server error'' \<and>
      last (filter (\<lambda>c. \<not> cleanup c) (calls (EncryptEPUB env r (arriving fs0)))) = Copy_in p (Some e))
   \<and> (MkdirAll p (Some e) \<in> set (calls (EncryptEPUB env r (arriving fs0))) \<longrightarrow>
      plain_reply (EncryptEPUB env r (arriving fs0)) 500 ''internal server error'' \<and>
      last (filter (\<lambda>c. \<not> cleanup c) (calls (EncryptEPUB env r (arriving fs0)))) = MkdirAll p (Some e))
   \<and> (ProcessEncryption args (Inl e) \<in> set (calls (EncryptEPUB env r (arriving fs0))) \<longrightarrow>
      plain_reply (EncryptEPUB env r (arriving fs0)) 500 (''encryption failed: '' @ e) \<and>
      last (filter (\<lambda>c. \<not> cleanup c) (calls (EncryptEPUB env r (arriving fs0)))) =
        ProcessEncryption args (Inl e))
   \<and> (Open p (Inl e) \<in> set (calls (EncryptEPUB env r (arriving fs0))) \<longrightarrow>
      plain_reply (EncryptEPUB env r (arriving fs0)) 500 ''internal server error'' \<and>
      last (filter (\<lambda>c. \<not> cleanup c) (calls (EncryptEPUB env r (arriving fs0)))) = Open p (Inl e))
   \<and> (\<not> wroteHeader (resp w) \<and> sent (resp w) = [] \<longrightarrow>
      plain_reply (respond env pub t f (Inl e) w) 500 ''internal server error'' \<and>
      calls (respond env pub t f (Inl e) w) = calls w)"
proof -
  have marshal: "\<not> wroteHeader (resp w) \<and> sent (resp w) = [] \<longrightarrow>
      plain_reply (respond env pub t f (Inl e) w) 500 ''internal server error'' \<and>
      calls (respond env pub t f (Inl e) w) = calls w"
    using marshal_failure_reply by blast
  show ?thesis
  proof (cases rule: EncryptEPUB_outcomes [of env r fs0])
    case (parse_failed e')
    with marshal show ?thesis by (simp add: plain_reply_def)
  next
    case (file_missing e')
    with marshal show ?thesis by (simp add: plain_reply_def)
  next
    case (tempdir_failed data fn e')
    with marshal show ?thesis by (simp add: plain_reply_def)
  next
    case (create_failed data fn d fs1 e')
    with marshal show ?thesis by (simp add: plain_reply_def)
  next
    case (copy_failed data fn d fs1 fs2 n e')
    with marshal show ?thesis by (simp add: plain_reply_def)
  next
    case (uuid_panicked data fn d fs1 fs2 e')
    with marshal show ?thesis by (simp add: plain_reply_def)
  next
    case (outdir_failed data fn d fs1 fs2 rnd e')
    with marshal show ?thesis by (simp add: plain_reply_def)
  next
    case (encryption_failed data fn d fs1 fs2 rnd fs3 e' fs4)
    with marshal show ?thesis by (simp add: plain_reply_def)
  next
    case (open_failed data fn d fs1 fs2 rnd fs3 pub' fs4 e')
    with marshal show ?thesis by (simp add: plain_reply_def)
  next
    case (read_failed data fn d fs1 fs2 rnd fs3 pub' fs4 j)
    with marshal show ?thesis by (simp add: plain_reply_def)
  next
    case (stream_failed data fn d fs1 fs2 rnd fs3 pub' fs4 content j n e')
    with marshal show ?thesis by (simp add: plain_reply_def)
  next
    case (completed data fn d fs1 fs2 rnd fs3 pub' fs4 content j)
    with marshal show ?thesis by (simp add: plain_reply_def)
  qed
qed


theorem failures_map_to_status_witness:
  "ParseMultipartForm (spill_err sample_env) (sample_request\<lparr>malformed := Some ''EOF''\<rparr>) (50 * 2 ^ 20) = Some ''EOF''
   \<and> plain_reply (EncryptEPUB (sample_env) (sample_request\<lparr>malformed := Some ''EOF''\<rparr>) (arriving sample_fs))
     400 ''failed to parse multipart form''
   \<and> ParseMultipartForm (spill_err sample_env) (sample_request\<lparr>parts := []\<rparr>) (50 * 2 ^ 20) = None \<and>
     FormFile (upload_open_err sample_env) (sample_request\<lparr>parts := []\<rparr>) ''file'' = Inl ''http: no such file''
   \<and> plain_reply (EncryptEPUB (sample_env) (sample_request\<lparr>parts := []\<rparr>) (arriving sample_fs))
     400 ''missing 'file' field''
   \<and> MkdirTemp ''lcp-encrypt-*'' (Inl ''no space left'') \<in> set (calls (EncryptEPUB (sample_env\<lparr>mkdirtemp_draw := Inl ''no space left''\<rparr>) (sample_request) (arriving sample_fs)))
   \<and> plain_reply (EncryptEPUB (sample_env\<lparr>mkdirtemp_draw := Inl ''no space left''\<rparr>) (sample_request) (arriving sample_fs))
     500 ''internal server error''
   \<and> Create [''tmp'', ''lcp-encrypt-7'', ''book.epub''] (Some ''permission denied'') \<in> set (calls (EncryptEPUB (sample_env\<lparr>create_err := Some ''permission denied''\<rparr>) (sample_request) (arriving sample_fs)))
   \<and> plain_reply (EncryptEPUB (sample_env\<lparr>create_err := Some ''permission denied''\<rparr>) (sample_request) (arriving sample_fs))
     500 ''internal server error''
   \<and> Copy_in [''tmp'', ''lcp-encrypt-7'', ''book.epub''] (Some ''no space left'') \<in> set (calls (EncryptEPUB (sample_env\<lparr>save_copy_err := Some (1, ''no space left'')\<rparr>) (sample_request) (arriving sample_fs)))
   \<and> plain_reply (EncryptEPUB (sample_env\<lparr>save_copy_err := Some (1, ''no space left'')\<rparr>) (sample_request) (arriving sample_fs))
     500 ''internal server error''
   \<and> MkdirAll [''tmp'', ''lcp-encrypt-7'', ''output''] (Some ''permission denied'') \<in> set (calls (EncryptEPUB (sample_env\<lparr>mkdirall_err := Some ''permission denied''\<rparr>) (sample_request) (arriving sample_fs)))
   \<and> plain_reply (EncryptEPUB (sample_env\<lparr>mkdirall_err := Some ''permission denied''\<rparr>) (sample_request) (arriving sample_fs))
     500 ''internal server error''
   \<and> ProcessEncryption sample_args (Inl ''not an EPUB'') \<in> set (calls (EncryptEPUB (sample_env\<lparr>engine := (\<lambda>a f. (Inl ''not an EPUB'', f))\<rparr>) (sample_request) (arriving sample_fs)))
   \<and> plain_reply (EncryptEPUB (sample_env\<lparr>engine := (\<lambda>a f. (Inl ''not an EPUB'', f))\<rparr>) (sample_request) (arriving sample_fs))
     500 ''encryption failed: not an EPUB''
   \<and> Open [''tmp'', ''lcp-encrypt-7'', ''output'', ''out.epub''] (Inl ''permission denied'') \<in> set (calls (EncryptEPUB (sample_env\<lparr>open_err := Some ''permission denied''\<rparr>) (sample_request) (arriving sample_fs)))
   \<and> plain_reply (EncryptEPUB (sample_env\<lparr>open_err := Some ''permission denied''\<rparr>) (sample_request) (arriving sample_fs))
     500 ''internal server error''
   \<and> \<not> wroteHeader (resp (arriving sample_fs))
   \<and> sent (resp (arriving sample_fs)) = []
   \<and> plain_reply (respond sample_env sample_publication ''t'' ([''x''], File []) (Inl ''json: error'') (arriving sample_fs))
     500 ''internal server error''"
proof -
  have parse: "ParseMultipartForm (spill_err sample_env) (sample_request\<lparr>malformed := Some ''EOF''\<rparr>) (50 * 2 ^ 20) = Some ''EOF''"
    by (simp add: eval_defs)
  from failures_map_to_status
    [of sample_env "sample_request\<lparr>malformed := Some ''EOF''\<rparr>" "''EOF''" sample_fs] parse
  have parse_reply: "plain_reply (EncryptEPUB (sample_env) (sample_request\<lparr>malformed := Some ''EOF''\<rparr>) (arriving sample_fs))
     400 ''failed to parse multipart form''"
    by simp
  have missing: "ParseMultipartForm (spill_err sample_env) (sample_request\<lparr>parts := []\<rparr>) (50 * 2 ^ 20) = None \<and>
     FormFile (upload_open_err sample_env) (sample_request\<lparr>parts := []\<rparr>) ''file'' = Inl ''http: no such file''"
    by (simp add: eval_defs)
  from failures_map_to_status
    [of sample_env "sample_request\<lparr>parts := []\<rparr>" "''http: no such file''" sample_fs] missing
  have missing_reply: "plain_reply (EncryptEPUB (sample_env) (sample_request\<lparr>parts := []\<rparr>) (arriving sample_fs))
     400 ''missing 'file' field''"
    by simp
  have tempdir: "MkdirTemp ''lcp-encrypt-*'' (Inl ''no space left'') \<in> set (calls (EncryptEPUB (sample_env\<lparr>mkdirtemp_draw := Inl ''no space left''\<rparr>) (sample_request) (arriving sample_fs)))"
    by (simp add: eval_defs)
  from failures_map_to_status
    [of "sample_env\<lparr>mkdirtemp_draw := Inl ''no space left''\<rparr>" sample_request "''no space left''" sample_fs "''lcp-encrypt-*''"] tempdir
  have tempdir_reply: "plain_reply (EncryptEPUB (sample_env\<lparr>mkdirtemp_draw := Inl ''no space left''\<rparr>) (sample_request) (arriving sample_fs))
     500 ''internal server error''"
    by simp
  have create: "Create [''tmp'', ''lcp-encrypt-7'', ''book.epub''] (Some ''permission denied'') \<in> set (calls (EncryptEPUB (sample_env\<lparr>create_err := Some ''permission denied''\<rparr>) (sample_request) (arriving sample_fs)))"
    by (simp add: eval_defs)
  from failures_map_to_status
    [of "sample_env\<lparr>create_err := Some ''permission denied''\<rparr>" sample_request "''permission denied''" sample_fs _ "[''tmp'', ''lcp-encrypt-7'', ''book.epub'']"] create
  have create_reply: "plain_reply (EncryptEPUB (sample_env\<lparr>create_err := Some ''permission denied''\<rparr>) (sample_request) (arriving sample_fs))
     500 ''internal server error''"
    by simp
  have copy: "Copy_in [''tmp'', ''lcp-encrypt-7'', ''book.epub''] (Some ''no space left'') \<in> set (calls (EncryptEPUB (sample_env\<lparr>save_copy_err := Some (1, ''no space left'')\<rparr>) (sample_request) (arriving sample_fs)))"
    by (simp add: eval_defs)
  from failures_map_to_status
    [of "sample_env\<lparr>save_copy_err := Some (1, ''no space left'')\<rparr>" sample_request "''no space left''" sample_fs _ "[''tmp'', ''lcp-encrypt-7'', ''book.epub'']"] copy
  have copy_reply: "plain_reply (EncryptEPUB (sample_env\<lparr>save_copy_err := Some (1, ''no space left'')\<rparr>) (sample_request) (arriving sample_fs))
     500 ''internal server error''"
    by simp
  have outdir: "MkdirAll [''tmp'', ''lcp-encrypt-7'', ''output''] (Some ''permission denied'') \<in> set (calls (EncryptEPUB (sample_env\<lparr>mkdirall_err := Some ''permission denied''\<rparr>) (sample_request) (arriving sample_fs)))"
    by (simp add: eval_defs)
  from failures_map_to_status
    [of "sample_env\<lparr>mkdirall_err := Some ''permission denied''\<rparr>" sample_request "''permission denied''" sample_fs _ "[''tmp'', ''lcp-encrypt-7'', ''output'']"] outdir
  have outdir_reply: "plain_reply (EncryptEPUB (sample_env\<lparr>mkdirall_err := Some ''permission denied''\<rparr>) (sample_request) (arriving sample_fs))
     500 ''internal server error''"
    by simp
  have engine: "ProcessEncryption sample_args (Inl ''not an EPUB'') \<in> set (calls (EncryptEPUB (sample_env\<lparr>engine := (\<lambda>a f. (Inl ''not an EPUB'', f))\<rparr>) (sample_request) (arriving sample_fs)))"
    by (simp add: eval_defs)
  from failures_map_to_status
    [of "sample_env\<lparr>engine := (\<lambda>a f. (Inl ''not an EPUB'', f))\<rparr>" sample_request "''not an EPUB''" sample_fs _ _ sample_args] engine
  have engine_reply: "plain_reply (EncryptEPUB (sample_env\<lparr>engine := (\<lambda>a f. (Inl ''not an EPUB'', f))\<rparr>) (sample_request) (arriving sample_fs))
     500 ''encryption failed: not an EPUB''"
    by simp
  have open_h: "Open [''tmp'', ''lcp-encrypt-7'', ''output'', ''out.epub''] (Inl ''permission denied'') \<in> set (calls (EncryptEPUB (sample_env\<lparr>open_err := Some ''permission denied''\<rparr>) (sample_request) (arriving sample_fs)))"
    by (simp add: eval_defs)
  from failures_map_to_status
    [of "sample_env\<lparr>open_err := Some ''permission denied''\<rparr>" sample_request "''permission denied''" sample_fs _ "[''tmp'', ''lcp-encrypt-7'', ''output'', ''out.epub'']"] open_h
  have open_h_reply: "plain_reply (EncryptEPUB (sample_env\<lparr>open_err := Some ''permission denied''\<rparr>) (sample_request) (arriving sample_fs))
     500 ''internal server error''"
    by simp
  have fresh: "\<not> wroteHeader (resp (arriving sample_fs)) \<and> sent (resp (arriving sample_fs)) = []"
    by (simp add: arriving_def)
  from failures_map_to_status
    [of sample_env _ "''json: error''" _ _ _ _ "arriving sample_fs" sample_publication "''t''" "([''x''], File [])"] fresh
  have marshal_reply: "plain_reply (respond sample_env sample_publication ''t'' ([''x''], File []) (Inl ''json: error'') (arriving sample_fs))
     500 ''internal server error''"
    by simp
  show ?thesis
    using parse missing tempdir create copy outdir engine open_h fresh
      parse_reply missing_reply tempdir_reply create_reply copy_reply outdir_reply engine_reply open_h_reply marshal_reply
    by blast
qed

lemma scalar_fields_marshal:
  "list_all (\<lambda>kv. scalar (snd kv)) flds \<Longrightarrow> \<exists>j. marshal_fields flds = Inr j"
proof (induction flds)
  case Nil
  then show ?case by simp
next
  case (Cons kv flds)
  obtain k v where kv: "kv = (k, v)" by (cases kv)
  from Cons.prems kv have "scalar v" by simp
  then obtain enc where "json_Marshal v = Inr enc"
    by (cases v) simp_all
  moreover from Cons obtain more where "marshal_fields flds = Inr more"
    by auto
  ultimately show ?case by (simp add: kv)
qed

text \<open>
  C10. The metadata record is a struct of seven fields, each a string or an unsigned
  32-bit integer; \<open>json.Marshal\<close> fails only on values it cannot encode, and a struct
  of such fields has none, so it returns a text for every record. Hence no run of the
  handler logs the failure to marshal, that is, the branch replying 500 for it is
  never taken.
\<close>

theorem metadata_always_serializes:
  "(\<exists>flds. EncryptResponse_value m = GoStruct flds \<and> list_all (\<lambda>kv. scalar (snd kv)) flds)
   \<and> (\<exists>j. json_Marshal (EncryptResponse_value m) = Inr j)
   \<and> (Error, ''EncryptEPUB: failed to marshal metadata: '' @ e)
        \<notin> set (logs (EncryptEPUB env r (arriving fs0)))"
proof -
  have flds: "\<exists>flds. EncryptResponse_value m = GoStruct flds \<and> list_all (\<lambda>kv. scalar (snd kv)) flds"
    by (simp add: EncryptResponse_value_def)
  then obtain flds where m: "EncryptResponse_value m = GoStruct flds"
    and "list_all (\<lambda>kv. scalar (snd kv)) flds"
    by blast
  then obtain body where "marshal_fields flds = Inr body"
    using scalar_fields_marshal by blast
  then have marshals: "\<exists>j. json_Marshal (EncryptResponse_value m) = Inr j"
    by (simp add: m)
  have "(Error, ''EncryptEPUB: failed to marshal metadata: '' @ e)
        \<notin> set (logs (EncryptEPUB env r (arriving fs0)))"
    by (cases rule: EncryptEPUB_outcomes [of env r fs0]) simp_all
  with flds marshals show ?thesis by blast
qed


theorem metadata_always_serializes_witness:
  "(\<exists>j. json_Marshal (EncryptResponse_value (metadata_of sample_publication ''My <T>'')) = Inr j)
   \<and> (Error, ''EncryptEPUB: failed to marshal metadata: json: error'')
        \<notin> set (logs (EncryptEPUB sample_env sample_request (arriving sample_fs)))"
  using metadata_always_serializes
    [of "metadata_of sample_publication ''My <T>''" "''json: error''" sample_env sample_request sample_fs]
  by simp

text \<open>
  C9. Let the engine answer with any other content key \<open>k\<close> and leave everything else
  as it is. Then the handler logs the same lines, sends the same status and the same
  body, and sets the same headers except \<open>X-Encrypt-Metadata\<close>; whenever the status is
  not 200, all that is sent is the same; the file system and a panic are the same. So
  no log line and no error reply carries anything of the key: the one place it reaches
  is the metadata header of a reply with status 200, where C6 shows it in base64. The
  message of a failing engine is passed on as the engine gives it.
\<close>

theorem content_key_reaches_only_the_metadata_header:
  "logs (EncryptEPUB (with_key k env) r (arriving fs0)) = logs (EncryptEPUB env r (arriving fs0))
   \<and> status_of (sent (resp (EncryptEPUB (with_key k env) r (arriving fs0)))) = status_of (sent (resp (EncryptEPUB env r (arriving fs0))))
   \<and> body_of (sent (resp (EncryptEPUB (with_key k env) r (arriving fs0)))) = body_of (sent (resp (EncryptEPUB env r (arriving fs0))))
   \<and> (\<forall>h. h = ''X-Encrypt-Metadata'' \<or>
          headers_of (sent (resp (EncryptEPUB (with_key k env) r (arriving fs0)))) h = headers_of (sent (resp (EncryptEPUB env r (arriving fs0)))) h)
   \<and> (status_of (sent (resp (EncryptEPUB env r (arriving fs0)))) = Some 200 \<or>
        sent (resp (EncryptEPUB (with_key k env) r (arriving fs0))) = sent (resp (EncryptEPUB env r (arriving fs0))))
   \<and> fs (EncryptEPUB (with_key k env) r (arriving fs0)) = fs (EncryptEPUB env r (arriving fs0))
   \<and> panic (EncryptEPUB (with_key k env) r (arriving fs0)) = panic (EncryptEPUB env r (arriving fs0))
   \<and> (\<forall>args pub. ProcessEncryption args (Inr pub) \<in> set (calls (EncryptEPUB (with_key k env) r (arriving fs0))) \<longrightarrow>
          EncryptionKey pub = k)"
proof (cases "ParseMultipartForm (spill_err env) r (50 * 2 ^ 20)")
  case (Some e)
  show ?thesis
    using Some
    by (simp add: handler_defs http_defs with_key_def marshal_metadata)
next
  case None
  note parse = None
  show ?thesis
  proof (cases "FormFile (upload_open_err env) r ''file''")
    case (Inl e)
    show ?thesis
      using parse Inl
      by (simp add: handler_defs http_defs with_key_def marshal_metadata)
  next
    case (Inr up)
    then obtain data fn where upload: "FormFile (upload_open_err env) r ''file'' = Inr (data, fn)"
      by (cases up) simp
    show ?thesis
    proof (cases "os_MkdirTemp (mkdirtemp_draw env) (TempDir env) ''lcp-encrypt-*'' fs0")
      case (Inl e)
      show ?thesis
        using parse upload Inl
        by (simp add: handler_defs http_defs with_key_def marshal_metadata)
    next
      case (Inr made)
      then obtain d fs1 where
        tmp: "os_MkdirTemp (mkdirtemp_draw env) (TempDir env) ''lcp-encrypt-*'' fs0 = Inr (d, fs1)"
        by (cases made) simp
      note pre_save = parse upload tmp
      show ?thesis
      proof (cases "os_Create (create_err env) (filepath_Join d fn) fs1")
        case (Inl e)
        show ?thesis
          using pre_save Inl
          by (simp add: handler_defs http_defs with_key_def marshal_metadata)
      next
        case (Inr fs2)
        note created = Inr
        show ?thesis
        proof (cases "save_copy_err env")
          case (Some ne)
          then obtain n e where copy: "save_copy_err env = Some (n, e)"
            by (cases ne) simp
          show ?thesis
            using pre_save created copy
            by (simp add: handler_defs http_defs with_key_def marshal_metadata)
        next
          case None
          note pre_uuid = pre_save created None
          show ?thesis
          proof (cases "rand_read env")
            case (Inl e)
            show ?thesis
              using pre_uuid Inl
              by (simp add: handler_defs http_defs with_key_def marshal_metadata)
          next
            case (Inr rnd)
            note pre_out = pre_uuid Inr
            show ?thesis
            proof (cases "os_MkdirAll (mkdirall_err env) (filepath_Join d ''output'')
                            (fs2(filepath_Join d fn \<mapsto> File data))")
              case (Inl e)
              show ?thesis
                using pre_out Inl
                by (simp add: handler_defs http_defs with_key_def marshal_metadata)
            next
              case (Inr fs3)
              note pre_eng = pre_out Inr
              obtain res fs4 where
                eng: "engine env (engine_call (uuid_String (uuid_New rnd)) (filepath_Join d fn)
                        (filepath_Join d ''output'')) fs3 = (res, fs4)"
                by (cases "engine env (engine_call (uuid_String (uuid_New rnd)) (filepath_Join d fn)
                        (filepath_Join d ''output'')) fs3") simp
              show ?thesis
              proof (cases res)
                case (Inl e)
                show ?thesis
                  using pre_eng eng Inl
                  by (simp add: handler_defs http_defs with_key_def marshal_metadata)
              next
                case (Inr pub)
                with eng have eng_ok:
                  "engine env (engine_call (uuid_String (uuid_New rnd)) (filepath_Join d fn)
                     (filepath_Join d ''output'')) fs3 = (Inr pub, fs4)"
                  by simp
                note pre_open = pre_eng eng_ok
                obtain j where marshal:
                  "json_Marshal (EncryptResponse_value (metadata_of pub
                     (if FormValue r ''title'' \<noteq> [] then FormValue r ''title'' else Title pub))) = Inr j"
                  by (simp add: marshal_metadata)
                show ?thesis
                proof (cases "os_Open (open_err env)
                                (filepath_Join (filepath_Join d ''output'') (FileName pub)) fs4")
                  case (Inl e)
                  show ?thesis
                    using pre_open Inl
                    by (simp add: handler_defs http_defs with_key_def marshal_metadata)
                next
                  case (Inr f)
                  then obtain nd where
                    no_err: "open_err env = None" and
                    there: "fs4 (filepath_Join (filepath_Join d ''output'') (FileName pub)) = Some nd" and
                    opened: "os_Open (open_err env)
                       (filepath_Join (filepath_Join d ''output'') (FileName pub)) fs4 =
                       Inr (filepath_Join (filepath_Join d ''output'') (FileName pub), nd)"
                    by (auto simp: os_Open_def split: option.splits)
                  show ?thesis
                  proof (cases nd)
                    case Dir
                    show ?thesis
                      using pre_open marshal no_err there opened Dir
                      by (simp add: handler_defs http_defs with_key_def marshal_metadata)
                  next
                    case (File content)
                    note pre_stream = pre_open marshal no_err there opened File
                    show ?thesis
                    proof (cases "stream_err env")
                      case (Some ne)
                      then obtain n e where stream: "stream_err env = Some (n, e)"
                        by (cases ne) simp
                      show ?thesis
                        using pre_stream stream
                        by (simp add: handler_defs http_defs with_key_def marshal_metadata)
                    next
                      case None
                      show ?thesis
                        using pre_stream None
                        by (simp add: handler_defs http_defs with_key_def marshal_metadata)
                    qed
                  qed
                qed
              qed
            qed
          qed
        qed
      qed
    qed
  qed
qed


theorem content_key_reaches_only_the_metadata_header_witness:
  "logs (EncryptEPUB (with_key [9, 9] sample_env) sample_request (arriving sample_fs)) =
     logs (EncryptEPUB sample_env sample_request (arriving sample_fs))
   \<and> body_of (sent (resp (EncryptEPUB (with_key [9, 9] sample_env) sample_request (arriving sample_fs)))) =
       body_of (sent (resp (EncryptEPUB sample_env sample_request (arriving sample_fs))))
   \<and> headers_of (sent (resp (EncryptEPUB (with_key [9, 9] sample_env) sample_request (arriving sample_fs))))
        ''X-Encrypt-Metadata'' =
        Some [''{\"uuid\":\"01234567-89ab-4def-8123-456789abcdef\",\"encryption_key\":\"CQk=\",'' @
              ''\"size\":3,\"checksum\":\"c0ffee\",\"content_type\":\"application/epub+zip\",'' @
              ''\"title\":\"My '' @ [CHR 0x5C] @ ''u003cT'' @ [CHR 0x5C] @ ''u003e\",'' @
              ''\"file_name\":\"out.epub\"}'']
   \<and> status_of (sent (resp (EncryptEPUB (sample_env\<lparr>open_err := Some ''permission denied''\<rparr>)
          sample_request (arriving sample_fs)))) = Some 500
   \<and> sent (resp (EncryptEPUB (with_key [9, 9] (sample_env\<lparr>open_err := Some ''permission denied''\<rparr>))
          sample_request (arriving sample_fs))) =
       sent (resp (EncryptEPUB (sample_env\<lparr>open_err := Some ''permission denied''\<rparr>)
          sample_request (arriving sample_fs)))"
proof -
  have header: "headers_of (sent (resp (EncryptEPUB (with_key [9, 9] sample_env) sample_request (arriving sample_fs))))
        ''X-Encrypt-Metadata'' =
        Some [''{\"uuid\":\"01234567-89ab-4def-8123-456789abcdef\",\"encryption_key\":\"CQk=\",'' @
              ''\"size\":3,\"checksum\":\"c0ffee\",\"content_type\":\"application/epub+zip\",'' @
              ''\"title\":\"My '' @ [CHR 0x5C] @ ''u003cT'' @ [CHR 0x5C] @ ''u003e\",'' @
              ''\"file_name\":\"out.epub\"}'']"
    by (simp add: eval_defs with_key_def)
  have failed: "status_of (sent (resp (EncryptEPUB (sample_env\<lparr>open_err := Some ''permission denied''\<rparr>)
          sample_request (arriving sample_fs)))) = Some 500"
    by (simp add: eval_defs)
  from content_key_reaches_only_the_metadata_header
    [of "[9, 9]" "sample_env\<lparr>open_err := Some ''permission denied''\<rparr>" sample_request sample_fs]
    failed
  have same: "sent (resp (EncryptEPUB (with_key [9, 9] (sample_env\<lparr>open_err := Some ''permission denied''\<rparr>))
          sample_request (arriving sample_fs))) =
       sent (resp (EncryptEPUB (sample_env\<lparr>open_err := Some ''permission denied''\<rparr>)
          sample_request (arriving sample_fs)))"
    by simp
  from content_key_reaches_only_the_metadata_header [of "[9, 9]" sample_env sample_request sample_fs]
    header failed same
  show ?thesis by blast
qed

lemma file_size_is_no_reason_to_fail:
  assumes "malformed r = None" and "parts r = [File_part name filename content]"
    and "filename \<noteq> []" and "length name \<le> 1000"
  shows "ParseMultipartForm None r (50 * 2 ^ 20) = None"
  using assms by (simp add: ParseMultipartForm_def)

text \<open>
  C3. The claim is that a request whose multipart body exceeds 50 MiB is rejected with
  status 400. \<open>ParseMultipartForm(50 << 20)\<close> bounds the memory used for the parts,
  not the size of the body: a file that does not fit is written to disk, so a
  well-formed form with one file parses whatever the size of the file. The request below carries a file of 50 MiB and one byte; it is
  parsed, staged, encrypted and answered with status 200 and the encrypted bytes.
\<close>

theorem oversized_upload_is_accepted:
  "50 * 2 ^ 20 < payload_bytes (parts oversized_request)
   \<and> ParseMultipartForm (spill_err sample_env) oversized_request (50 * 2 ^ 20) = None
   \<and> status_of (sent (resp (EncryptEPUB sample_env oversized_request (arriving sample_fs)))) = Some 200
   \<and> body_of (sent (resp (EncryptEPUB sample_env oversized_request (arriving sample_fs)))) = [7, 8, 9]"
  by (simp add: eval_defs)

end
